theory Spec2Isabelle
  imports Main "HOL-Library.Sublist"
begin

section \<open>Document values and the Python operations the rules apply to them\<close>

text \<open>
  A parsed template is a tree of Python values: \<open>None\<close>, booleans, integers, strings,
  lists and dictionaries with string keys.  A dictionary is an association list in
  document order; a well-formed dictionary has distinct keys.  Floating-point scalars
  are not part of the model.
\<close>

datatype val =
    VNull
  | VBool bool
  | VInt int
  | VStr string
  | VList "val list"
  | VDict "(string \<times> val) list"

type_synonym pydict = "(string \<times> val) list"

text \<open>The exceptions the rule bodies can raise.\<close>

datatype py_error = AttributeError | TypeError | KeyError | IndexError

type_synonym 'a result = "py_error + 'a"

definition bind :: "'a result \<Rightarrow> ('a \<Rightarrow> 'b result) \<Rightarrow> 'b result" where
  "bind r f = (case r of Inl e \<Rightarrow> Inl e | Inr x \<Rightarrow> f x)"

text \<open>\<^verbatim>\<open>v.get(k, default)\<close>: only a dictionary has the method.\<close>

fun py_get :: "val \<Rightarrow> string \<Rightarrow> val \<Rightarrow> val result" where
  "py_get (VDict d) k dflt = Inr (case map_of d k of Some v \<Rightarrow> v | None \<Rightarrow> dflt)"
| "py_get _ k dflt = Inl AttributeError"

text \<open>\<^verbatim>\<open>v[k]\<close> with a string key.\<close>

fun py_item :: "val \<Rightarrow> string \<Rightarrow> val result" where
  "py_item (VDict d) k = (case map_of d k of Some v \<Rightarrow> Inr v | None \<Rightarrow> Inl KeyError)"
| "py_item _ k = Inl TypeError"

text \<open>\<^verbatim>\<open>v[0]\<close>: the keys of a dictionary are strings, so the integer is never one.\<close>

fun py_item0 :: "val \<Rightarrow> val result" where
  "py_item0 (VList []) = Inl IndexError"
| "py_item0 (VList (x # xs)) = Inr x"
| "py_item0 (VStr []) = Inl IndexError"
| "py_item0 (VStr (c # cs)) = Inr (VStr [c])"
| "py_item0 (VDict d) = Inl KeyError"
| "py_item0 _ = Inl TypeError"

text \<open>\<^verbatim>\<open>for x in v\<close>: the sequence of values the loop visits.\<close>

fun py_iter :: "val \<Rightarrow> val list result" where
  "py_iter (VList xs) = Inr xs"
| "py_iter (VDict d) = Inr (map (\<lambda>kv. VStr (fst kv)) d)"
| "py_iter (VStr s) = Inr (map (\<lambda>c. VStr [c]) s)"
| "py_iter _ = Inl TypeError"

text \<open>
  \<^verbatim>\<open>s in v\<close> for a string \<open>s\<close>: an equal element of a list, a key of a dictionary,
  a substring of a string.
\<close>

fun str_in :: "string \<Rightarrow> val \<Rightarrow> bool result" where
  "str_in s (VList xs) = Inr (VStr s \<in> set xs)"
| "str_in s (VDict d) = Inr (s \<in> set (map fst d))"
| "str_in s (VStr t) = Inr (sublist s t)"
| "str_in s _ = Inl TypeError"

text \<open>
  \<^verbatim>\<open>d in v\<close> for a dictionary \<open>d\<close>: an equal element of a list; a dictionary is not
  hashable and is not a string, so every other container raises.
\<close>

fun dict_in :: "pydict \<Rightarrow> val \<Rightarrow> bool result" where
  "dict_in d (VList xs) = Inr (VDict d \<in> set xs)"
| "dict_in d _ = Inl TypeError"

text \<open>\<^verbatim>\<open>v in d.keys()\<close>: the value is hashed first.\<close>

fun in_keys :: "val \<Rightarrow> string list \<Rightarrow> bool result" where
  "in_keys (VStr s) ks = Inr (s \<in> set ks)"
| "in_keys (VList xs) ks = Inl TypeError"
| "in_keys (VDict d) ks = Inl TypeError"
| "in_keys _ ks = Inr False"

text \<open>Truth value of \<^verbatim>\<open>not v\<close>.\<close>

fun falsy :: "val \<Rightarrow> bool" where
  "falsy VNull = True"
| "falsy (VBool b) = (\<not> b)"
| "falsy (VInt i) = (i = 0)"
| "falsy (VStr s) = (s = [])"
| "falsy (VList xs) = (xs = [])"
| "falsy (VDict d) = (d = [])"

section \<open>Templates and violations\<close>

text \<open>
  Modelled from the spec: the template object and its queries \<^verbatim>\<open>get_parameters\<close> and
  \<^verbatim>\<open>get_resources\<close> belong to the linter library, not to this repository.  A template
  owns a Parameters section and a Resources section (an absent section is empty);
  \<^verbatim>\<open>get_resources\<close> returns, in document order, the resources that are objects whose
  type tag is one of the given types.
\<close>

record template =
  Parameters :: pydict
  Resources :: pydict

definition get_parameters :: "template \<Rightarrow> pydict" where
  "get_parameters cfn = Parameters cfn"

definition has_type :: "string list \<Rightarrow> val \<Rightarrow> bool" where
  "has_type tys v =
     (case v of
        VDict d \<Rightarrow> (case map_of d ''Type'' of Some (VStr t) \<Rightarrow> t \<in> set tys | _ \<Rightarrow> False)
      | _ \<Rightarrow> False)"

definition get_resources :: "template \<Rightarrow> string list \<Rightarrow> pydict" where
  "get_resources cfn tys = filter (\<lambda>kv. has_type tys (snd kv)) (Resources cfn)"

record rule_match =
  path :: "string list"
  message :: string

definition RuleMatch :: "string list \<Rightarrow> string \<Rightarrow> rule_match" where
  "RuleMatch p m = \<lparr>path = p, message = m\<rparr>"

section \<open>E9000: mandatory parameters\<close>

text \<open>
  The rule object keeps its list of mandatory parameters in a mutable list, and
  \<^verbatim>\<open>match\<close> removes names from a deep copy of it.  Lists that are mutated live in a
  heap of cells; a reference is the index of a cell.
\<close>

type_synonym heap = "string list list"

definition deepcopy :: "heap \<Rightarrow> nat \<Rightarrow> heap \<times> nat" where
  "deepcopy h a = (h @ [h ! a], length h)"

definition list_remove :: "heap \<Rightarrow> nat \<Rightarrow> string \<Rightarrow> heap" where
  "list_remove h b x = h[b := remove1 x (h ! b)]"

fun remove_present :: "heap \<Rightarrow> nat \<Rightarrow> string list \<Rightarrow> heap" where
  "remove_present h b [] = h"
| "remove_present h b (key # keys) =
     remove_present (if key \<in> set (h ! b) then list_remove h b key else h) b keys"

text \<open>One iteration of the removal loop, on the list it mutates.\<close>

definition removal_step :: "string list \<Rightarrow> string \<Rightarrow> string list" where
  "removal_step xs k = (if k \<in> set xs then remove1 k xs else xs)"

definition missing_message :: "string \<Rightarrow> string" where
  "missing_message param = ''Missing parameter '' @ [CHR 0x27] @ param @ [CHR 0x27]"

definition MandatoryParametersRule_match ::
    "nat \<Rightarrow> heap \<Rightarrow> template \<Rightarrow> rule_match list result \<times> heap" where
  "MandatoryParametersRule_match self_mandatory h cfn =
     (let (h1, mandatory_parameters) = deepcopy h self_mandatory;
          h2 = remove_present h1 mandatory_parameters (map fst (get_parameters cfn))
      in (Inr (map (\<lambda>param. RuleMatch [''Parameters''] (missing_message param))
                 (h2 ! mandatory_parameters)),
          h2))"

text \<open>The class attribute: one cell holding the single required name.\<close>

definition initial_heap :: heap where
  "initial_heap = [[''Environment'']]"

definition mandatory_ref :: nat where
  "mandatory_ref = 0"

section \<open>Rendering a value in a message\<close>

text \<open>
  \<^verbatim>\<open>"{}".format(v)\<close> renders \<open>v\<close> with \<^verbatim>\<open>str\<close>: a string is itself, every other value
  is its \<^verbatim>\<open>repr\<close>.  A character is a code point below 256; \<^verbatim>\<open>repr\<close> escapes the ones
  that are not printable: the control characters below \<open>0x20\<close> and from \<open>0x7f\<close> to
  \<open>0x9f\<close>, the no-break space \<open>0xa0\<close> and the soft hyphen \<open>0xad\<close>.
\<close>

definition digit_char :: "nat \<Rightarrow> char" where
  "digit_char n = char_of (48 + n)"

fun nat_str :: "nat \<Rightarrow> string" where
  "nat_str n = (if n < 10 then [digit_char n] else nat_str (n div 10) @ [digit_char (n mod 10)])"

declare nat_str.simps [simp del]

definition int_str :: "int \<Rightarrow> string" where
  "int_str i = (if i < 0 then ''-'' @ nat_str (nat (- i)) else nat_str (nat i))"

definition hex_char :: "nat \<Rightarrow> char" where
  "hex_char n = (if n < 10 then char_of (48 + n) else char_of (87 + n))"

definition repr_char :: "char \<Rightarrow> char \<Rightarrow> string" where
  "repr_char q c =
     (if c = CHR 0x5C then [CHR 0x5C, CHR 0x5C]
      else if c = q then [CHR 0x5C, q]
      else if c = CHR 0x0A then [CHR 0x5C, CHR ''n'']
      else if c = CHR 0x0D then [CHR 0x5C, CHR ''r'']
      else if c = CHR 0x09 then [CHR 0x5C, CHR ''t'']
      else if (of_char c :: nat) < 32
              \<or> (127 \<le> (of_char c :: nat) \<and> (of_char c :: nat) \<le> 160)
              \<or> (of_char c :: nat) = 173
        then [CHR 0x5C, CHR ''x'', hex_char (of_char c div 16), hex_char (of_char c mod 16)]
      else [c])"

definition repr_str :: "string \<Rightarrow> string" where
  "repr_str s =
     (let q = (if CHR 0x27 \<in> set s \<and> CHR 0x22 \<notin> set s then CHR 0x22 else CHR 0x27)
      in [q] @ concat (map (repr_char q) s) @ [q])"

fun join :: "string \<Rightarrow> string list \<Rightarrow> string" where
  "join sep [] = []"
| "join sep [x] = x"
| "join sep (x # y # ys) = x @ sep @ join sep (y # ys)"

fun py_repr :: "val \<Rightarrow> string" where
  "py_repr VNull = ''None''"
| "py_repr (VBool b) = (if b then ''True'' else ''False'')"
| "py_repr (VInt i) = int_str i"
| "py_repr (VStr s) = repr_str s"
| "py_repr (VList xs) = ''['' @ join '', '' (map py_repr xs) @ '']''"
| "py_repr (VDict d) =
     ''{'' @ join '', '' (map (\<lambda>kv. repr_str (fst kv) @ '': '' @ py_repr (snd kv)) d) @ ''}''"

definition py_str :: "val \<Rightarrow> string" where
  "py_str v = (case v of VStr s \<Rightarrow> s | _ \<Rightarrow> py_repr v)"

section \<open>Loops that collect violations\<close>

text \<open>
  A \<^verbatim>\<open>for\<close> loop whose body appends to a list: the results of the bodies in order, or
  the exception of the first body that raises.
\<close>

fun for_each :: "('a \<Rightarrow> 'b list result) \<Rightarrow> 'a list \<Rightarrow> 'b list result" where
  "for_each body [] = Inr []"
| "for_each body (x # xs) =
     bind (body x) (\<lambda>ys. bind (for_each body xs) (\<lambda>zs. Inr (ys @ zs)))"

section \<open>E9001: Python 3.9 runtime\<close>

definition runtime_message :: "val \<Rightarrow> string \<Rightarrow> string" where
  "runtime_message actual expected =
     ''Function is using '' @ py_str actual @ '' runtime instead of '' @ expected"

definition properties_runtime :: "val \<Rightarrow> val result" where
  "properties_runtime v =
     bind (py_get v ''Properties'' VNull) (\<lambda>props. py_get props ''Runtime'' VNull)"

definition Python39Rule_resource :: "string \<times> val \<Rightarrow> rule_match list result" where
  "Python39Rule_resource kv =
     bind (properties_runtime (snd kv)) (\<lambda>runtime.
       if runtime \<noteq> VStr ''python3.9''
       then bind (properties_runtime (snd kv)) (\<lambda>shown.
              Inr [RuleMatch [''Resources'', fst kv] (runtime_message shown ''python3.9'')])
       else Inr [])"

definition Python39Rule_match :: "template \<Rightarrow> rule_match list result" where
  "Python39Rule_match cfn =
     for_each Python39Rule_resource (get_resources cfn [''AWS::Lambda::Function''])"

section \<open>E9002: log group of every function\<close>

text \<open>
  \<^verbatim>\<open>re.search(r"\${(?P<func>[^}]+)}", s)\<close>: the leftmost position at which \<^verbatim>\<open>${\<close> is
  followed by a non-empty run of characters other than \<^verbatim>\<open>}\<close> and then by \<^verbatim>\<open>}\<close>; the
  group is that run.  The run the pattern takes is the longest one, since a shorter
  run is followed by a character that is not \<^verbatim>\<open>}\<close>.
\<close>

definition match_here :: "string \<Rightarrow> string option" where
  "match_here s =
     (case s of
        a # b # rest \<Rightarrow>
          (if a = CHR ''$'' \<and> b = CHR ''{''
             \<and> takeWhile (\<lambda>c. c \<noteq> CHR ''}'') rest \<noteq> []
             \<and> dropWhile (\<lambda>c. c \<noteq> CHR ''}'') rest \<noteq> []
           then Some (takeWhile (\<lambda>c. c \<noteq> CHR ''}'') rest)
           else None)
      | _ \<Rightarrow> None)"

fun re_search_func :: "string \<Rightarrow> string option" where
  "re_search_func [] = None"
| "re_search_func (c # cs) =
     (case match_here (c # cs) of Some f \<Rightarrow> Some f | None \<Rightarrow> re_search_func cs)"

definition log_group_known :: "val \<Rightarrow> string list result" where
  "log_group_known resource =
     bind (py_get resource ''Properties'' VNull) (\<lambda>props.
     bind (str_in ''LogGroupName'' props) (\<lambda>named.
       if \<not> named then Inr []
       else
         bind (py_get resource ''Properties'' VNull) (\<lambda>props'.
         bind (py_get props' ''LogGroupName'' VNull) (\<lambda>log_group_name.
           case log_group_name of
             VDict d \<Rightarrow>
               (if ''Fn::Sub'' \<notin> set (map fst d) then Inr []
                else bind (py_item log_group_name ''Fn::Sub'') (\<lambda>sub.
                  case sub of
                    VStr s \<Rightarrow> (case re_search_func s of Some func \<Rightarrow> Inr [func] | None \<Rightarrow> Inr [])
                  | _ \<Rightarrow> Inl TypeError))
           | _ \<Rightarrow> Inr []))))"

definition log_group_message :: "string \<Rightarrow> string" where
  "log_group_message function = ''Function '' @ function @ '' does not have a corresponding log group''"

definition LambdaLogGroupRule_match :: "template \<Rightarrow> rule_match list result" where
  "LambdaLogGroupRule_match cfn =
     (let functions = get_resources cfn [''AWS::Lambda::Function''];
          log_groups = get_resources cfn [''AWS::Logs::LogGroup'']
      in bind (for_each log_group_known (map snd log_groups)) (\<lambda>known.
           Inr (map (\<lambda>function. RuleMatch [''Resources'', function] (log_group_message function))
                  (filter (\<lambda>function. function \<notin> set known) (map fst functions)))))"

section \<open>E9003: failure destination of every event source mapping\<close>

definition on_failure :: "val \<Rightarrow> val result" where
  "on_failure resource =
     bind (py_get resource ''Properties'' (VDict [])) (\<lambda>props.
     bind (py_get props ''DestinationConfig'' (VDict [])) (\<lambda>config.
     py_get config ''OnFailure'' VNull))"

definition esm_message :: "string \<Rightarrow> string" where
  "esm_message key =
     ''Event Source Mapping '' @ key @ '' does not have a DestinationConfig with OnFailure destination''"

definition LambdaESMDestinationConfig_resource :: "string \<times> val \<Rightarrow> rule_match list result" where
  "LambdaESMDestinationConfig_resource kv =
     bind (on_failure (snd kv)) (\<lambda>dest.
       Inr (if dest = VNull then [RuleMatch [''Resources'', fst kv] (esm_message (fst kv))] else []))"

definition LambdaESMDestinationConfig_match :: "template \<Rightarrow> rule_match list result" where
  "LambdaESMDestinationConfig_match cfn =
     for_each LambdaESMDestinationConfig_resource
       (get_resources cfn [''AWS::Lambda::EventSourceMapping''])"

section \<open>E9004: event invoke config of every function invoked by a rule\<close>

definition invoke_config_function :: "val \<Rightarrow> val list result" where
  "invoke_config_function resource =
     bind (on_failure resource) (\<lambda>dest.
       if dest = VNull then Inr []
       else
         bind (py_item resource ''Properties'') (\<lambda>props.
         bind (py_item props ''FunctionName'') (\<lambda>name.
         bind (py_item name ''Ref'') (\<lambda>ref. Inr [ref]))))"

definition getatt_head :: "val \<Rightarrow> val result" where
  "getatt_head target =
     bind (py_item target ''Arn'') (\<lambda>arn.
     bind (py_item arn ''Fn::GetAtt'') (\<lambda>getatt. py_item0 getatt))"

definition invoke_message :: "string \<Rightarrow> string" where
  "invoke_message key =
     ''Rule '' @ key @ '' does not have a corresponding Event Invoke Config with OnFailure destination''"

definition target_matches ::
    "string list \<Rightarrow> val list \<Rightarrow> string \<Rightarrow> val \<Rightarrow> rule_match list result" where
  "target_matches function_names invoke_config_functions key target =
     bind (py_get target ''Arn'' (VDict [])) (\<lambda>arn.
     bind (py_get arn ''Fn::GetAtt'' VNull) (\<lambda>getatt.
       if getatt = VNull then Inr []
       else
         bind (getatt_head target) (\<lambda>head.
         bind (in_keys head function_names) (\<lambda>declared.
           if \<not> declared then Inr []
           else
             bind (getatt_head target) (\<lambda>function_name.
               Inr (if function_name \<notin> set invoke_config_functions
                    then [RuleMatch [''Resources'', key] (invoke_message key)]
                    else []))))))"

definition rule_targets :: "val \<Rightarrow> val list result" where
  "rule_targets resource =
     bind (py_get resource ''Properties'' (VDict [])) (\<lambda>props.
     bind (py_get props ''Targets'' (VList [])) py_iter)"

definition LambdaRuleInvokeConfig_rule ::
    "string list \<Rightarrow> val list \<Rightarrow> string \<times> val \<Rightarrow> rule_match list result" where
  "LambdaRuleInvokeConfig_rule function_names invoke_config_functions kv =
     bind (rule_targets (snd kv))
       (for_each (target_matches function_names invoke_config_functions (fst kv)))"

definition LambdaRuleInvokeConfig_match :: "template \<Rightarrow> rule_match list result" where
  "LambdaRuleInvokeConfig_match cfn =
     (let function_names = map fst (get_resources cfn [''AWS::Lambda::Function'']);
          rules = get_resources cfn [''AWS::Events::Rule''];
          invoke_configs = get_resources cfn [''AWS::Lambda::EventInvokeConfig'']
      in bind (for_each invoke_config_function (map snd invoke_configs))
           (\<lambda>invoke_config_functions.
              for_each (LambdaRuleInvokeConfig_rule function_names invoke_config_functions) rules))"

section \<open>E9005: Lambda Insights layer\<close>

definition layer_pattern :: pydict where
  "layer_pattern =
     [(''Fn::Sub'',
       VStr ''arn:aws:lambda:${AWS::Region}:580247275435:layer:LambdaInsightsExtension:2'')]"

definition layer_message :: "string \<Rightarrow> string" where
  "layer_message key = ''Function '' @ key @ '' does not use the CloudWatch Lambda Insights layer''"

definition LambdaInsightsLayer_resource :: "string \<times> val \<Rightarrow> rule_match list result" where
  "LambdaInsightsLayer_resource kv =
     bind (py_get (snd kv) ''Properties'' (VDict [])) (\<lambda>props.
     bind (py_get props ''Layers'' (VList [])) (\<lambda>layers.
     bind (dict_in layer_pattern layers) (\<lambda>present.
       Inr (if \<not> present then [RuleMatch [''Resources'', fst kv] (layer_message (fst kv))]
            else []))))"

definition LambdaInsightsLayer_match :: "template \<Rightarrow> rule_match list result" where
  "LambdaInsightsLayer_match cfn =
     for_each LambdaInsightsLayer_resource (get_resources cfn [''AWS::Lambda::Function''])"

section \<open>E9006: Lambda Insights managed policy\<close>

definition policy_arn :: string where
  "policy_arn = ''arn:aws:iam::aws:policy/CloudWatchLambdaInsightsExecutionRolePolicy''"

definition permission_message :: "string \<Rightarrow> string" where
  "permission_message function_name =
     ''Function '' @ function_name @ '' does not have the CloudWatch Lambda Insights managed policy''"

definition LambdaInsightsPermission_function :: "pydict \<Rightarrow> string \<Rightarrow> rule_match list result" where
  "LambdaInsightsPermission_function roles function_name =
     bind (py_item (VDict roles) (function_name @ ''Role'')) (\<lambda>role.
     bind (py_get role ''Properties'' (VDict [])) (\<lambda>props.
     bind (py_get props ''ManagedPolicyArns'' (VList [])) (\<lambda>arns.
     bind (str_in policy_arn arns) (\<lambda>present.
       Inr (if \<not> present
            then [RuleMatch [''Resources'', function_name] (permission_message function_name)]
            else [])))))"

definition LambdaInsightsPermission_match :: "template \<Rightarrow> rule_match list result" where
  "LambdaInsightsPermission_match cfn =
     (let function_names = map fst (get_resources cfn [''AWS::Lambda::Function'']);
          roles = get_resources cfn [''AWS::IAM::Role'']
      in for_each (LambdaInsightsPermission_function roles) function_names)"

section \<open>E9007: source condition on events:PutEvents\<close>

definition statement_matches :: "val \<Rightarrow> bool result" where
  "statement_matches statement =
     bind (py_get statement ''Action'' (VDict [])) (\<lambda>action.
     bind (str_in ''events:PutEvents'' action) (\<lambda>puts.
       if puts
       then bind (py_get statement ''Condition'' (VDict [])) (\<lambda>condition.
            bind (py_get condition ''StringEquals'' (VDict [])) (\<lambda>equals.
            bind (py_get equals ''events:source'' VNull) (\<lambda>source. Inr (falsy source))))
       else Inr False))"

text \<open>The statement loop returns at the first statement that matches.\<close>

fun first_matching :: "val list \<Rightarrow> bool result" where
  "first_matching [] = Inr False"
| "first_matching (statement # rest) =
     bind (statement_matches statement) (\<lambda>m. if m then Inr True else first_matching rest)"

definition policy_statements :: "val \<Rightarrow> val list result" where
  "policy_statements policy =
     bind (py_get policy ''PolicyDocument'' (VDict [])) (\<lambda>document.
     bind (py_get document ''Statement'' (VList [])) py_iter)"

definition IAMPutEventsConditions_match_policy :: "val \<Rightarrow> bool result" where
  "IAMPutEventsConditions_match_policy policy =
     bind (policy_statements policy) first_matching"

text \<open>The policy loop visits every policy, also after one has matched.\<close>

fun scan_policies :: "bool \<Rightarrow> val list \<Rightarrow> bool result" where
  "scan_policies found [] = Inr found"
| "scan_policies found (policy # rest) =
     bind (IAMPutEventsConditions_match_policy policy)
       (\<lambda>m. scan_policies (if m then True else found) rest)"

definition put_events_message :: "string \<Rightarrow> string" where
  "put_events_message role_name =
     ''IAM role '' @ role_name
       @ '' does not have an events:source condition for the events:PutEvents action''"

definition role_policies :: "val \<Rightarrow> val list result" where
  "role_policies role =
     bind (py_get role ''Properties'' (VDict [])) (\<lambda>props.
     bind (py_get props ''Policies'' (VList [])) py_iter)"

definition IAMPutEventsConditions_role :: "string \<times> val \<Rightarrow> rule_match list result" where
  "IAMPutEventsConditions_role kv =
     bind (role_policies (snd kv)) (\<lambda>policies.
     bind (scan_policies False policies) (\<lambda>found.
       Inr (if found then [RuleMatch [''Resources'', fst kv] (put_events_message (fst kv))]
            else [])))"

definition IAMPutEventsConditions_match :: "template \<Rightarrow> rule_match list result" where
  "IAMPutEventsConditions_match cfn =
     for_each IAMPutEventsConditions_role (get_resources cfn [''AWS::IAM::Role''])"

section \<open>The rules as operations on the rule objects' heap\<close>

text \<open>
  Only E9000 touches a mutable attribute of its rule object; the other rules read the
  template and constants.
\<close>

datatype rule = E9000 | E9001 | E9002 | E9003 | E9004 | E9005 | E9006 | E9007

fun rule_match_op :: "rule \<Rightarrow> nat \<Rightarrow> heap \<Rightarrow> template \<Rightarrow> rule_match list result \<times> heap" where
  "rule_match_op E9000 self_mandatory h cfn = MandatoryParametersRule_match self_mandatory h cfn"
| "rule_match_op E9001 self_mandatory h cfn = (Python39Rule_match cfn, h)"
| "rule_match_op E9002 self_mandatory h cfn = (LambdaLogGroupRule_match cfn, h)"
| "rule_match_op E9003 self_mandatory h cfn = (LambdaESMDestinationConfig_match cfn, h)"
| "rule_match_op E9004 self_mandatory h cfn = (LambdaRuleInvokeConfig_match cfn, h)"
| "rule_match_op E9005 self_mandatory h cfn = (LambdaInsightsLayer_match cfn, h)"
| "rule_match_op E9006 self_mandatory h cfn = (LambdaInsightsPermission_match cfn, h)"
| "rule_match_op E9007 self_mandatory h cfn = (IAMPutEventsConditions_match cfn, h)"

section \<open>Resources without the inspected property\<close>

text \<open>
  A resource lacks a property when it has no Properties key at all, or when its
  Properties object has no such key.
\<close>

definition lacks :: "val \<Rightarrow> string \<Rightarrow> bool" where
  "lacks resource k =
     (case resource of
        VDict r \<Rightarrow>
          (case map_of r ''Properties'' of
             None \<Rightarrow> True
           | Some (VDict props) \<Rightarrow> map_of props k = None
           | Some _ \<Rightarrow> False)
      | _ \<Rightarrow> False)"

section \<open>A template without Properties\<close>

text \<open>One resource of every inspected type, each with a Type and no Properties.\<close>

definition bare_template :: template where
  "bare_template =
     \<lparr>Parameters = [],
      Resources =
        [(''Fn'', VDict [(''Type'', VStr ''AWS::Lambda::Function'')]),
         (''FnRole'', VDict [(''Type'', VStr ''AWS::IAM::Role'')]),
         (''FnLogs'', VDict [(''Type'', VStr ''AWS::Logs::LogGroup'')]),
         (''Mapping'', VDict [(''Type'', VStr ''AWS::Lambda::EventSourceMapping'')]),
         (''Schedule'', VDict [(''Type'', VStr ''AWS::Events::Rule'')]),
         (''Invoke'', VDict [(''Type'', VStr ''AWS::Lambda::EventInvokeConfig'')])]\<rparr>"

section \<open>What the log-group rule reads from a log group\<close>









section \<open>What the Insights-permission rule reads from a role\<close>

text \<open>
  A role of the expected shape: Properties is absent or an object, and its
  ManagedPolicyArns is absent or a list.
\<close>

definition role_shaped :: "val \<Rightarrow> bool" where
  "role_shaped role =
     (case role of
        VDict r \<Rightarrow>
          (case map_of r ''Properties'' of
             None \<Rightarrow> True
           | Some (VDict props) \<Rightarrow>
               (case map_of props ''ManagedPolicyArns'' of
                  None \<Rightarrow> True
                | Some (VList arns) \<Rightarrow> True
                | Some _ \<Rightarrow> False)
           | Some _ \<Rightarrow> False)
      | _ \<Rightarrow> False)"

definition managed_policy_arns :: "val \<Rightarrow> val list" where
  "managed_policy_arns role =
     (case role of
        VDict r \<Rightarrow>
          (case map_of r ''Properties'' of
             Some (VDict props) \<Rightarrow>
               (case map_of props ''ManagedPolicyArns'' of Some (VList arns) \<Rightarrow> arns | _ \<Rightarrow> [])
           | _ \<Rightarrow> [])
      | _ \<Rightarrow> [])"

definition has_insights_policy :: "pydict \<Rightarrow> string \<Rightarrow> bool" where
  "has_insights_policy roles function_name =
     (case map_of roles (function_name @ ''Role'') of
        Some role \<Rightarrow> VStr policy_arn \<in> set (managed_policy_arns role)
      | None \<Rightarrow> False)"

text \<open>
  Function \<open>Api\<close>, whose role has the Insights policy, and function \<open>Worker\<close>,
  whose role has another policy only.
\<close>

definition roles_template :: template where
  "roles_template =
     \<lparr>Parameters = [],
      Resources =
        [(''Api'', VDict [(''Type'', VStr ''AWS::Lambda::Function'')]),
         (''ApiRole'',
          VDict [(''Type'', VStr ''AWS::IAM::Role''),
                 (''Properties'',
                  VDict [(''ManagedPolicyArns'',
                          VList [VStr ''arn:aws:iam::aws:policy/CloudWatchLambdaInsightsExecutionRolePolicy''])])]),
         (''Worker'', VDict [(''Type'', VStr ''AWS::Lambda::Function'')]),
         (''WorkerRole'',
          VDict [(''Type'', VStr ''AWS::IAM::Role''),
                 (''Properties'',
                  VDict [(''ManagedPolicyArns'',
                          VList [VStr ''arn:aws:iam::aws:policy/AWSXrayWriteOnlyAccess''])])])]\<rparr>"

text \<open>Function \<open>Api\<close> with its role, and function \<open>Worker\<close> without a role.\<close>

definition missing_role_template :: template where
  "missing_role_template =
     \<lparr>Parameters = [],
      Resources =
        [(''Api'', VDict [(''Type'', VStr ''AWS::Lambda::Function'')]),
         (''ApiRole'', VDict [(''Type'', VStr ''AWS::IAM::Role'')]),
         (''Worker'', VDict [(''Type'', VStr ''AWS::Lambda::Function'')])]\<rparr>"

text \<open>
  Function \<open>Api\<close>, whose role has an empty (null) ManagedPolicyArns, followed by
  function \<open>Worker\<close> without a role.
\<close>

definition malformed_role_template :: template where
  "malformed_role_template =
     \<lparr>Parameters = [],
      Resources =
        [(''Api'', VDict [(''Type'', VStr ''AWS::Lambda::Function'')]),
         (''ApiRole'',
          VDict [(''Type'', VStr ''AWS::IAM::Role''),
                 (''Properties'', VDict [(''ManagedPolicyArns'', VNull)])]),
         (''Worker'', VDict [(''Type'', VStr ''AWS::Lambda::Function'')])]\<rparr>"

section \<open>What the PutEvents rule reads from a role\<close>

text \<open>
  The statement's Action contains \<^verbatim>\<open>events:PutEvents\<close>: as an element when the Action is
  a list, as a substring when it is a string, as a key when it is an object.
\<close>

definition has_put_events :: "val \<Rightarrow> bool" where
  "has_put_events statement =
     (case statement of
        VDict st \<Rightarrow>
          (case map_of st ''Action'' of
             Some (VStr a) \<Rightarrow> sublist ''events:PutEvents'' a
           | Some (VList actions) \<Rightarrow> VStr ''events:PutEvents'' \<in> set actions
           | Some (VDict d) \<Rightarrow> ''events:PutEvents'' \<in> set (map fst d)
           | _ \<Rightarrow> False)
      | _ \<Rightarrow> False)"

text \<open>
  The value of the statement's \<open>StringEquals\<close> condition on \<open>events:source\<close>, and
  \<open>None\<close> when there is none.
\<close>

definition source_condition :: "val \<Rightarrow> val" where
  "source_condition statement =
     (case statement of
        VDict st \<Rightarrow>
          (case map_of st ''Condition'' of
             Some (VDict condition) \<Rightarrow>
               (case map_of condition ''StringEquals'' of
                  Some (VDict equals) \<Rightarrow>
                    (case map_of equals ''events:source'' of Some v \<Rightarrow> v | None \<Rightarrow> VNull)
                | _ \<Rightarrow> VNull)
           | _ \<Rightarrow> VNull)
      | _ \<Rightarrow> VNull)"

text \<open>The values that restrict nothing: null, false, zero and the empty ones.\<close>

definition empty_value :: "val \<Rightarrow> bool" where
  "empty_value v \<longleftrightarrow> v \<in> set [VNull, VBool False, VInt 0, VStr [], VList [], VDict []]"

definition qualifies :: "val \<Rightarrow> bool" where
  "qualifies statement \<longleftrightarrow> has_put_events statement \<and> empty_value (source_condition statement)"

text \<open>
  The same two tests in the words of the specification: the action is in the
  statement's set of actions, and the statement has no \<open>StringEquals\<close> condition on the
  key \<open>events:source\<close>.
\<close>

definition spec_has_action :: "val \<Rightarrow> bool" where
  "spec_has_action statement =
     (case statement of
        VDict st \<Rightarrow>
          (case map_of st ''Action'' of
             Some (VStr a) \<Rightarrow> a = ''events:PutEvents''
           | Some (VList actions) \<Rightarrow> VStr ''events:PutEvents'' \<in> set actions
           | _ \<Rightarrow> False)
      | _ \<Rightarrow> False)"

definition spec_has_source_condition :: "val \<Rightarrow> bool" where
  "spec_has_source_condition statement =
     (case statement of
        VDict st \<Rightarrow>
          (case map_of st ''Condition'' of
             Some (VDict condition) \<Rightarrow>
               (case map_of condition ''StringEquals'' of
                  Some (VDict equals) \<Rightarrow> map_of equals ''events:source'' \<noteq> None
                | _ \<Rightarrow> False)
           | _ \<Rightarrow> False)
      | _ \<Rightarrow> False)"

definition spec_qualifies :: "val \<Rightarrow> bool" where
  "spec_qualifies statement \<longleftrightarrow>
     spec_has_action statement \<and> \<not> spec_has_source_condition statement"

definition policies_of :: "val \<Rightarrow> val list" where
  "policies_of role = (case role_policies role of Inr policies \<Rightarrow> policies | Inl e \<Rightarrow> [])"

definition statements_of :: "val \<Rightarrow> val list" where
  "statements_of policy =
     (case policy_statements policy of Inr statements \<Rightarrow> statements | Inl e \<Rightarrow> [])"

definition role_flagged :: "val \<Rightarrow> bool" where
  "role_flagged role \<longleftrightarrow>
     (\<exists>policy\<in>set (policies_of role). \<exists>statement\<in>set (statements_of policy). qualifies statement)"

text \<open>
  Roles of the expected shape: objects where objects are expected, lists of policies
  and of statements, an Action that is a string, a list or an object.
\<close>

definition statement_shaped :: "val \<Rightarrow> bool" where
  "statement_shaped statement =
     (case statement of
        VDict st \<Rightarrow>
          (case map_of st ''Action'' of
             None \<Rightarrow> True
           | Some (VStr a) \<Rightarrow> True
           | Some (VList actions) \<Rightarrow> True
           | Some (VDict d) \<Rightarrow> True
           | Some _ \<Rightarrow> False)
          \<and> (case map_of st ''Condition'' of
               None \<Rightarrow> True
             | Some (VDict condition) \<Rightarrow>
                 (case map_of condition ''StringEquals'' of
                    None \<Rightarrow> True
                  | Some (VDict equals) \<Rightarrow> True
                  | Some _ \<Rightarrow> False)
             | Some _ \<Rightarrow> False)
      | _ \<Rightarrow> False)"

definition policy_shaped :: "val \<Rightarrow> bool" where
  "policy_shaped policy =
     (case policy of
        VDict p \<Rightarrow>
          (case map_of p ''PolicyDocument'' of
             None \<Rightarrow> True
           | Some (VDict document) \<Rightarrow>
               (case map_of document ''Statement'' of
                  None \<Rightarrow> True
                | Some (VList statements) \<Rightarrow> list_all statement_shaped statements
                | Some _ \<Rightarrow> False)
           | Some _ \<Rightarrow> False)
      | _ \<Rightarrow> False)"

definition policies_shaped :: "val \<Rightarrow> bool" where
  "policies_shaped role =
     (case role of
        VDict r \<Rightarrow>
          (case map_of r ''Properties'' of
             None \<Rightarrow> True
           | Some (VDict props) \<Rightarrow>
               (case map_of props ''Policies'' of
                  None \<Rightarrow> True
                | Some (VList policies) \<Rightarrow> list_all policy_shaped policies
                | Some _ \<Rightarrow> False)
           | Some _ \<Rightarrow> False)
      | _ \<Rightarrow> False)"

text \<open>
  Role \<open>Open\<close> has two policies with three statements that publish events without a
  source condition; role \<open>Bound\<close> publishes events under a source condition; role
  \<open>Reader\<close> does not publish events.
\<close>

definition open_statement :: val where
  "open_statement =
     VDict [(''Effect'', VStr ''Allow''), (''Action'', VStr ''events:PutEvents''),
            (''Resource'', VStr ''*'')]"

definition bound_statement :: val where
  "bound_statement =
     VDict [(''Effect'', VStr ''Allow''), (''Action'', VList [VStr ''events:PutEvents'']),
            (''Resource'', VStr ''*''),
            (''Condition'',
             VDict [(''StringEquals'', VDict [(''events:source'', VStr ''ecommerce.orders'')])])]"

definition reader_statement :: val where
  "reader_statement =
     VDict [(''Effect'', VStr ''Allow''), (''Action'', VStr ''sqs:SendMessage''),
            (''Resource'', VStr ''*'')]"

definition put_events_template :: template where
  "put_events_template =
     \<lparr>Parameters = [],
      Resources =
        [(''Open'',
          VDict [(''Type'', VStr ''AWS::IAM::Role''),
                 (''Properties'',
                  VDict [(''Policies'',
                          VList [VDict [(''PolicyName'', VStr ''first''),
                                        (''PolicyDocument'',
                                         VDict [(''Statement'',
                                                 VList [open_statement, open_statement])])],
                                 VDict [(''PolicyName'', VStr ''second''),
                                        (''PolicyDocument'',
                                         VDict [(''Statement'', VList [open_statement])])]])])]),
         (''Bound'',
          VDict [(''Type'', VStr ''AWS::IAM::Role''),
                 (''Properties'',
                  VDict [(''Policies'',
                          VList [VDict [(''PolicyName'', VStr ''only''),
                                        (''PolicyDocument'',
                                         VDict [(''Statement'', VList [bound_statement])])]])])]),
         (''Reader'',
          VDict [(''Type'', VStr ''AWS::IAM::Role''),
                 (''Properties'',
                  VDict [(''Policies'',
                          VList [VDict [(''PolicyName'', VStr ''queue''),
                                        (''PolicyDocument'',
                                         VDict [(''Statement'', VList [reader_statement])])]])])])]\<rparr>"

text \<open>
  Role \<open>Empty\<close> publishes events under a \<open>StringEquals\<close> condition on \<open>events:source\<close>
  whose list of sources is empty; the only action of role \<open>Batch\<close> is the string
  \<^verbatim>\<open>events:PutEventsBatch\<close>.
\<close>

definition empty_source_statement :: val where
  "empty_source_statement =
     VDict [(''Effect'', VStr ''Allow''), (''Action'', VList [VStr ''events:PutEvents'']),
            (''Resource'', VStr ''*''),
            (''Condition'', VDict [(''StringEquals'', VDict [(''events:source'', VList [])])])]"

definition batch_statement :: val where
  "batch_statement =
     VDict [(''Effect'', VStr ''Allow''), (''Action'', VStr ''events:PutEventsBatch''),
            (''Resource'', VStr ''*'')]"

definition loose_template :: template where
  "loose_template =
     \<lparr>Parameters = [],
      Resources =
        [(''Empty'',
          VDict [(''Type'', VStr ''AWS::IAM::Role''),
                 (''Properties'',
                  VDict [(''Policies'',
                          VList [VDict [(''PolicyName'', VStr ''publish''),
                                        (''PolicyDocument'',
                                         VDict [(''Statement'',
                                                 VList [empty_source_statement])])]])])]),
         (''Batch'',
          VDict [(''Type'', VStr ''AWS::IAM::Role''),
                 (''Properties'',
                  VDict [(''Policies'',
                          VList [VDict [(''PolicyName'', VStr ''publish''),
                                        (''PolicyDocument'',
                                         VDict [(''Statement'', VList [batch_statement])])]])])])]\<rparr>"

section \<open>What the invoke-config rule reads\<close>












section \<open>Properties of E9000\<close>

lemma remove_present_length: "length (remove_present h b ks) = length h"
  by (induction ks arbitrary: h) (simp_all add: list_remove_def)

lemma remove_present_other:
  "a \<noteq> b \<Longrightarrow> remove_present h b ks ! a = h ! a"
  by (induction ks arbitrary: h) (simp_all add: list_remove_def)

lemma filter_remove1_distinct:
  "distinct xs \<Longrightarrow> filter P (remove1 k xs) = filter (\<lambda>p. p \<noteq> k \<and> P p) xs"
  by (induction xs) (auto intro: filter_cong)

lemma remove_present_cell:
  "b < length h \<Longrightarrow> distinct (h ! b) \<Longrightarrow>
   remove_present h b ks ! b = filter (\<lambda>p. p \<notin> set ks) (h ! b)"
proof (induction ks arbitrary: h)
  case Nil
  then show ?case by simp
next
  case (Cons k ks)
  show ?case
  proof (cases "k \<in> set (h ! b)")
    case True
    let ?h = "list_remove h b k"
    have cell: "?h ! b = remove1 k (h ! b)"
      using Cons.prems(1) by (simp add: list_remove_def)
    have "remove_present ?h b ks ! b = filter (\<lambda>p. p \<notin> set ks) (?h ! b)"
      using Cons.prems cell by (intro Cons.IH) (simp_all add: list_remove_def)
    also have "\<dots> = filter (\<lambda>p. p \<notin> set (k # ks)) (h ! b)"
      using Cons.prems(2) cell by (simp add: filter_remove1_distinct)
    finally show ?thesis using True by simp
  next
    case False
    have "filter (\<lambda>p. p \<notin> set ks) (h ! b) = filter (\<lambda>p. p \<notin> set (k # ks)) (h ! b)"
      using False by (intro filter_cong) auto
    with Cons False show ?thesis by simp
  qed
qed

lemma remove_present_fold:
  "b < length h \<Longrightarrow> remove_present h b ks ! b = foldl removal_step (h ! b) ks"
  by (induction ks arbitrary: h) (simp_all add: list_remove_def removal_step_def)

lemma match_result_reads_cell:
  assumes "a < length h"
  shows "fst (MandatoryParametersRule_match a h cfn) =
         Inr (map (\<lambda>param. RuleMatch [''Parameters''] (missing_message param))
                (foldl removal_step (h ! a) (map fst (get_parameters cfn))))"
  using assms
  by (simp add: MandatoryParametersRule_match_def deepcopy_def remove_present_fold nth_append)

lemma match_keeps_cell:
  assumes "a < length h"
  shows "snd (MandatoryParametersRule_match a h cfn) ! a = h ! a"
    and "a < length (snd (MandatoryParametersRule_match a h cfn))"
  using assms
  by (simp_all add: MandatoryParametersRule_match_def deepcopy_def remove_present_other
      remove_present_length nth_append Let_def)

text \<open>
  C7.  With the rule's required names in a valid cell and without repetition, the
  mandatory-parameters rule returns, in the order of the required names, exactly one
  violation for each required name that is not a key of the Parameters section, and
  none for a name that is a key.  The violation has the path \<open>Parameters\<close> and the
  message \<^verbatim>\<open>Missing parameter '<name>'\<close>, which names the parameter between quotes.
\<close>

theorem mandatory_parameters_violations:
  assumes "a < length h" and "distinct (h ! a)"
  shows "fst (MandatoryParametersRule_match a h cfn) =
         Inr (map (\<lambda>param. \<lparr>path = [''Parameters''],
                            message = ''Missing parameter '' @ [CHR 0x27] @ param @ [CHR 0x27]\<rparr>)
                (filter (\<lambda>param. param \<notin> set (map fst (Parameters cfn))) (h ! a)))"
  using assms
  by (simp add: MandatoryParametersRule_match_def deepcopy_def remove_present_cell nth_append
      get_parameters_def RuleMatch_def missing_message_def)

text \<open>
  The rule as shipped (required names \<open>Environment\<close>): empty Parameters give one
  violation naming \<open>Environment\<close>, Parameters with that key give none.
\<close>

theorem mandatory_parameters_violations_witness:
  "mandatory_ref < length initial_heap \<and> distinct (initial_heap ! mandatory_ref)
   \<and> fst (MandatoryParametersRule_match mandatory_ref initial_heap
            \<lparr>Parameters = [], Resources = []\<rparr>)
       = Inr [\<lparr>path = [''Parameters''],
               message = ''Missing parameter '' @ [CHR 0x27] @ ''Environment'' @ [CHR 0x27]\<rparr>]
   \<and> fst (MandatoryParametersRule_match mandatory_ref initial_heap
            \<lparr>Parameters = [(''Environment'', VDict [(''Type'', VStr ''String'')])],
             Resources = []\<rparr>)
       = Inr []"
  using mandatory_parameters_violations
      [of mandatory_ref initial_heap "\<lparr>Parameters = [], Resources = []\<rparr>"]
    mandatory_parameters_violations
      [of mandatory_ref initial_heap
        "\<lparr>Parameters = [(''Environment'', VDict [(''Type'', VStr ''String'')])],
          Resources = []\<rparr>"]
  by (simp add: initial_heap_def mandatory_ref_def)

section \<open>Running a rule twice\<close>

text \<open>
  C8.  Calling the match operation of any rule twice in a row on the same template,
  the second call starting from the heap the first one left, gives the same result
  (the same ordered violations, or the same exception), and the first call leaves the
  list of required names as it found it: the mandatory-parameters rule removes names
  from a copy only.
\<close>

theorem match_twice_identical:
  assumes "a < length h"
  shows "fst (rule_match_op r a (snd (rule_match_op r a h cfn)) cfn)
           = fst (rule_match_op r a h cfn)
         \<and> snd (rule_match_op r a h cfn) ! a = h ! a"
proof (cases r)
  case E9000
  let ?h' = "snd (MandatoryParametersRule_match a h cfn)"
  have kept: "?h' ! a = h ! a" and valid: "a < length ?h'"
    using assms by (rule match_keeps_cell)+
  have "fst (MandatoryParametersRule_match a ?h' cfn) = fst (MandatoryParametersRule_match a h cfn)"
    using assms valid kept by (simp add: match_result_reads_cell)
  with kept E9000 show ?thesis by simp
qed simp_all

theorem match_twice_identical_witness:
  "mandatory_ref < length initial_heap
   \<and> fst (rule_match_op E9000 mandatory_ref
            (snd (rule_match_op E9000 mandatory_ref initial_heap
                    \<lparr>Parameters = [(''Environment'', VNull)], Resources = []\<rparr>))
            \<lparr>Parameters = [(''Environment'', VNull)], Resources = []\<rparr>)
       = fst (rule_match_op E9000 mandatory_ref initial_heap
                \<lparr>Parameters = [(''Environment'', VNull)], Resources = []\<rparr>)
   \<and> snd (rule_match_op E9000 mandatory_ref initial_heap
            \<lparr>Parameters = [(''Environment'', VNull)], Resources = []\<rparr>) ! mandatory_ref
       = [''Environment'']"
  using match_twice_identical [of mandatory_ref initial_heap E9000
      "\<lparr>Parameters = [(''Environment'', VNull)], Resources = []\<rparr>"]
  by (simp add: initial_heap_def mandatory_ref_def)

section \<open>The scan for an embedded reference\<close>

lemma match_here_Some:
  assumes "match_here s = Some f"
  shows "f \<noteq> [] \<and> CHR ''}'' \<notin> set f \<and> (\<exists>rest. s = ''${'' @ f @ ''}'' @ rest)"
proof -
  from assms obtain a b rest where s: "s = a # b # rest"
    by (auto simp: match_here_def split: list.splits)
  let ?name = "takeWhile (\<lambda>c. c \<noteq> CHR ''}'') rest"
  let ?after = "dropWhile (\<lambda>c. c \<noteq> CHR ''}'') rest"
  from assms s have ab: "a = CHR ''$''" "b = CHR ''{''" and ne: "?name \<noteq> []" "?after \<noteq> []"
    and f: "f = ?name"
    by (auto simp: match_here_def split: if_splits)
  from ne(2) have "hd ?after = CHR ''}''"
    using hd_dropWhile [of "\<lambda>c. c \<noteq> CHR ''}''" rest] by auto
  with ne(2) obtain tl' where after: "?after = CHR ''}'' # tl'"
    by (cases ?after) auto
  have "rest = ?name @ ?after" by simp
  with after f have "rest = f @ ''}'' @ tl'" by simp
  moreover have "CHR ''}'' \<notin> set f"
    unfolding f using set_takeWhileD by fastforce
  ultimately show ?thesis using s ab ne(1) f by auto
qed

lemma re_search_func_Some:
  "re_search_func s = Some f \<Longrightarrow>
   f \<noteq> [] \<and> CHR ''}'' \<notin> set f \<and> sublist (''${'' @ f @ ''}'') s"
proof (induction s)
  case Nil
  then show ?case by simp
next
  case (Cons c cs)
  show ?case
  proof (cases "match_here (c # cs)")
    case None
    with Cons have "f \<noteq> [] \<and> CHR ''}'' \<notin> set f \<and> sublist (''${'' @ f @ ''}'') cs" by simp
    then show ?thesis by (auto simp: sublist_Cons_right)
  next
    case (Some g)
    with Cons.prems have "g = f" by simp
    with Some obtain rest where "f \<noteq> []" "CHR ''}'' \<notin> set f" "c # cs = (''${'' @ f @ ''}'') @ rest"
      using match_here_Some [of "c # cs" f] by auto
    then show ?thesis
      using sublist_append_rightI [of "''${'' @ f @ ''}''" rest] by simp
  qed
qed

lemma re_search_func_no_opening:
  "\<not> sublist ''${'' s \<Longrightarrow> re_search_func s = None"
proof (rule ccontr)
  assume no: "\<not> sublist ''${'' s" and "re_search_func s \<noteq> None"
  then obtain f where "re_search_func s = Some f" by auto
  then have "sublist (''${'' @ f @ ''}'') s" using re_search_func_Some [of s f] by blast
  moreover have "sublist ''${'' (''${'' @ f @ ''}'')"
    using sublist_append_rightI [of "''${''" "f @ ''}''"] by simp
  ultimately have "sublist ''${'' s" by (rule sublist_order.order.trans [rotated])
  with no show False by contradiction
qed

text \<open>
  C4.  The scan for an embedded reference finds none in a string that has no \<^verbatim>\<open>${\<close>,
  none in \<^verbatim>\<open>${unterminated\<close> and none in \<^verbatim>\<open>${}\<close>; an identifier it does extract is
  never empty, holds no \<^verbatim>\<open>}\<close>, and stands in the string between \<^verbatim>\<open>${\<close> and \<^verbatim>\<open>}\<close>.
\<close>

theorem interpolation_scanning:
  "(\<not> sublist ''${'' s \<longrightarrow> re_search_func s = None)
   \<and> re_search_func ''${unterminated'' = None
   \<and> re_search_func ''${}'' = None
   \<and> (re_search_func t = Some f \<longrightarrow>
        f \<noteq> [] \<and> CHR ''}'' \<notin> set f \<and> sublist (''${'' @ f @ ''}'') t)"
proof -
  have "re_search_func ''${unterminated'' = None" by (simp add: match_here_def)
  moreover have "re_search_func ''${}'' = None" by (simp add: match_here_def)
  ultimately show ?thesis
    using re_search_func_no_opening [of s] re_search_func_Some [of t f] by blast
qed

theorem interpolation_scanning_witness:
  "\<not> sublist ''${'' ''/aws/lambda/plain'' \<and> re_search_func ''/aws/lambda/plain'' = None
   \<and> re_search_func ''/aws/lambda/${Foo}'' = Some ''Foo''
   \<and> ''Foo'' \<noteq> [] \<and> CHR ''}'' \<notin> set ''Foo''
   \<and> sublist ''${Foo}'' ''/aws/lambda/${Foo}''"
proof -
  have a: "\<not> sublist ''${'' ''/aws/lambda/plain''" by code_simp
  have b: "re_search_func ''/aws/lambda/${Foo}'' = Some ''Foo''" by (simp add: match_here_def)
  show ?thesis
    using a b interpolation_scanning [of "''/aws/lambda/plain''" "''/aws/lambda/${Foo}''" "''Foo''"]
    by simp
qed


section \<open>Results and loops\<close>

lemma bind_Inr [simp]: "bind (Inr x) f = f x"
  by (simp add: bind_def)

lemma bind_Inl [simp]: "bind (Inl e) f = Inl e"
  by (simp add: bind_def)

lemma bind_eq_Inr: "bind r f = Inr y \<longleftrightarrow> (\<exists>x. r = Inr x \<and> f x = Inr y)"
  by (cases r) simp_all

lemma for_each_all_Inr:
  "(\<And>x. x \<in> set xs \<Longrightarrow> body x = Inr (g x)) \<Longrightarrow> for_each body xs = Inr (concat (map g xs))"
  by (induction xs) simp_all

lemma for_each_Inr_iff:
  "for_each body xs = Inr ms \<longleftrightarrow>
     (\<forall>x\<in>set xs. \<exists>ys. body x = Inr ys) \<and> ms = concat (map (\<lambda>x. projr (body x)) xs)"
proof (induction xs arbitrary: ms)
  case Nil
  show ?case by auto
next
  case (Cons x xs)
  show ?case
  proof (cases "body x")
    case (Inl e)
    then show ?thesis by auto
  next
    case (Inr ys)
    show ?thesis
    proof (cases "for_each body xs")
      case (Inl e)
      with Cons [of "[]"] Inr show ?thesis
        by (metis Cons.IH Inl_Inr_False bind_Inl bind_Inr for_each.simps(2) list.set_intros(2))
    next
      case r: (Inr zs)
      with Cons [of zs] Inr show ?thesis by auto
    qed
  qed
qed

lemma for_each_Inl:
  "for_each body xs = Inl e \<Longrightarrow> \<exists>x\<in>set xs. body x = Inl e"
proof (induction xs)
  case Nil
  then show ?case by simp
next
  case (Cons x xs)
  then show ?case
    by (cases "body x"; cases "for_each body xs") auto
qed

section \<open>E9007: how the action is matched\<close>

lemma statement_matches_no_condition:
  assumes "map_of d ''Condition'' = None" and "map_of d ''Action'' = Some action"
  shows "statement_matches (VDict d) = bind (str_in ''events:PutEvents'' action) Inr"
  using assms by (cases "str_in ''events:PutEvents'' action") (simp_all add: statement_matches_def)

text \<open>
  C10.  For a policy whose single statement has no Condition: when the statement's
  Action is a string, the policy matches exactly when \<^verbatim>\<open>events:PutEvents\<close> occurs in it
  as a substring; when the Action is a list, exactly when one of its elements is the
  string \<^verbatim>\<open>events:PutEvents\<close> itself.
\<close>

theorem put_events_action_containment:
  assumes "map_of d ''Condition'' = None"
  shows "(map_of d ''Action'' = Some (VStr a) \<longrightarrow>
            IAMPutEventsConditions_match_policy
              (VDict [(''PolicyDocument'', VDict [(''Statement'', VList [VDict d])])])
            = Inr (\<exists>pre post. a = pre @ ''events:PutEvents'' @ post))
       \<and> (map_of d ''Action'' = Some (VList xs) \<longrightarrow>
            IAMPutEventsConditions_match_policy
              (VDict [(''PolicyDocument'', VDict [(''Statement'', VList [VDict d])])])
            = Inr (VStr ''events:PutEvents'' \<in> set xs))"
  using assms
  by (simp add: IAMPutEventsConditions_match_policy_def policy_statements_def
      statement_matches_no_condition sublist_def)

theorem put_events_action_containment_witness:
  "map_of [(''Effect'', VStr ''Allow''), (''Action'', VStr ''events:PutEventsBatch'')] ''Condition'' = None
   \<and> IAMPutEventsConditions_match_policy
       (VDict [(''PolicyDocument'', VDict [(''Statement'',
          VList [VDict [(''Effect'', VStr ''Allow''), (''Action'', VStr ''events:PutEventsBatch'')]])])])
     = Inr True
   \<and> map_of [(''Effect'', VStr ''Allow''), (''Action'', VList [VStr ''events:PutEventsBatch''])] ''Condition'' = None
   \<and> IAMPutEventsConditions_match_policy
       (VDict [(''PolicyDocument'', VDict [(''Statement'',
          VList [VDict [(''Effect'', VStr ''Allow''), (''Action'', VList [VStr ''events:PutEventsBatch''])]])])])
     = Inr False
   \<and> IAMPutEventsConditions_match_policy
       (VDict [(''PolicyDocument'', VDict [(''Statement'',
          VList [VDict [(''Effect'', VStr ''Allow''),
                        (''Action'', VList [VStr ''sqs:SendMessage'', VStr ''events:PutEvents''])]])])])
     = Inr True"
proof -
  have "''events:PutEventsBatch'' = [] @ ''events:PutEvents'' @ ''Batch''" by simp
  then have sub: "\<exists>pre post. ''events:PutEventsBatch'' = pre @ ''events:PutEvents'' @ post"
    by blast
  show ?thesis
    using sub
      put_events_action_containment
        [of "[(''Effect'', VStr ''Allow''), (''Action'', VStr ''events:PutEventsBatch'')]"
            "''events:PutEventsBatch''"]
      put_events_action_containment
        [of "[(''Effect'', VStr ''Allow''), (''Action'', VList [VStr ''events:PutEventsBatch''])]"
            _ "[VStr ''events:PutEventsBatch'']"]
      put_events_action_containment
        [of "[(''Effect'', VStr ''Allow''),
              (''Action'', VList [VStr ''sqs:SendMessage'', VStr ''events:PutEvents''])]"
            _ "[VStr ''sqs:SendMessage'', VStr ''events:PutEvents'']"]
    by simp
qed


section \<open>Violations located at one resource\<close>

lemma distinct_get_resources:
  "distinct (map fst (Resources cfn)) \<Longrightarrow> distinct (map fst (get_resources cfn tys))"
  by (simp add: get_resources_def distinct_map_filter)

lemma filter_path_concat:
  assumes "distinct (map fst xs)" and "(k, v) \<in> set xs"
    and "\<And>x. x \<in> set xs \<Longrightarrow> \<forall>m\<in>set (g x). path m = [''Resources'', fst x]"
  shows "filter (\<lambda>m. path m = [''Resources'', k]) (concat (map g xs)) = g (k, v)"
  using assms
proof (induction xs)
  case Nil
  then show ?case by simp
next
  case (Cons x xs)
  show ?case
  proof (cases "x = (k, v)")
    case True
    have here: "filter (\<lambda>m. path m = [''Resources'', k]) (g x) = g x"
      using Cons.prems(3) [of x] True by (auto simp: filter_id_conv)
    have "k \<notin> fst ` set xs" using Cons.prems(1) True by auto
    then have "\<And>y. y \<in> set xs \<Longrightarrow> \<forall>m\<in>set (g y). path m \<noteq> [''Resources'', k]"
      using Cons.prems(3) by force
    then have "filter (\<lambda>m. path m = [''Resources'', k]) (concat (map g xs)) = []"
      by (auto simp: filter_empty_conv)
    with here True show ?thesis by simp
  next
    case False
    with Cons.prems have mem: "(k, v) \<in> set xs" and "fst x \<noteq> k"
      by (auto simp: rev_image_eqI)
    then have "filter (\<lambda>m. path m = [''Resources'', k]) (g x) = []"
      using Cons.prems(3) [of x] by (auto simp: filter_empty_conv)
    moreover have "filter (\<lambda>m. path m = [''Resources'', k]) (concat (map g xs)) = g (k, v)"
      using Cons.prems mem by (intro Cons.IH) auto
    ultimately show ?thesis by simp
  qed
qed

section \<open>E9005: a function without layers\<close>

lemma lacks_cases:
  assumes "lacks resource k"
  obtains (absent) r where "resource = VDict r" and "map_of r ''Properties'' = None"
  | (without) r props where "resource = VDict r" and "map_of r ''Properties'' = Some (VDict props)"
      and "map_of props k = None"
proof (cases resource)
  case (VDict r)
  show ?thesis
  proof (cases "map_of r ''Properties''")
    case None
    with VDict absent show ?thesis by blast
  next
    case (Some v)
    with assms VDict obtain props where "v = VDict props" and "map_of props k = None"
      by (cases v) (simp_all add: lacks_def)
    with Some VDict without show ?thesis by blast
  qed
qed (use assms in \<open>simp_all add: lacks_def\<close>)

lemma lacks_get:
  assumes "lacks resource k"
  shows "bind (py_get resource ''Properties'' (VDict [])) (\<lambda>props. py_get props k dflt) = Inr dflt"
  using assms by (cases rule: lacks_cases) simp_all

lemma LambdaInsightsLayer_resource_path:
  "LambdaInsightsLayer_resource kv = Inr ys \<Longrightarrow> \<forall>m\<in>set ys. path m = [''Resources'', fst kv]"
  by (auto simp: LambdaInsightsLayer_resource_def bind_eq_Inr RuleMatch_def split: if_splits)

lemma LambdaInsightsLayer_resource_lacks:
  assumes "lacks resource ''Layers''"
  shows "LambdaInsightsLayer_resource (key, resource)
         = Inr [RuleMatch [''Resources'', key] (layer_message key)]"
  using assms by (cases rule: lacks_cases) (simp_all add: LambdaInsightsLayer_resource_def)

text \<open>
  C9.  A Lambda function resource with no Properties key, or whose Properties object
  has no Layers key, is processed without an exception and gets exactly one violation
  of the Insights-layer rule: whenever the rule returns, the violations it reports at
  that function's path are that single one.
\<close>

theorem insights_layer_absent:
  assumes "distinct (map fst (Resources cfn))"
    and "(key, resource) \<in> set (get_resources cfn [''AWS::Lambda::Function''])"
    and "lacks resource ''Layers''"
  shows "LambdaInsightsLayer_resource (key, resource)
           = Inr [RuleMatch [''Resources'', key] (layer_message key)]
         \<and> (\<forall>ms. LambdaInsightsLayer_match cfn = Inr ms \<longrightarrow>
               filter (\<lambda>m. path m = [''Resources'', key]) ms
                 = [RuleMatch [''Resources'', key] (layer_message key)])"
proof (intro conjI allI impI)
  show one: "LambdaInsightsLayer_resource (key, resource)
           = Inr [RuleMatch [''Resources'', key] (layer_message key)]"
    using assms(3) by (rule LambdaInsightsLayer_resource_lacks)
  fix ms
  assume "LambdaInsightsLayer_match cfn = Inr ms"
  then have all: "\<forall>x\<in>set (get_resources cfn [''AWS::Lambda::Function'']).
                    \<exists>ys. LambdaInsightsLayer_resource x = Inr ys"
    and ms: "ms = concat (map (\<lambda>x. projr (LambdaInsightsLayer_resource x))
                     (get_resources cfn [''AWS::Lambda::Function'']))"
    by (simp_all add: LambdaInsightsLayer_match_def for_each_Inr_iff)
  have "filter (\<lambda>m. path m = [''Resources'', key]) ms
        = projr (LambdaInsightsLayer_resource (key, resource))"
    unfolding ms
  proof (rule filter_path_concat)
    show "distinct (map fst (get_resources cfn [''AWS::Lambda::Function'']))"
      using assms(1) by (rule distinct_get_resources)
    show "(key, resource) \<in> set (get_resources cfn [''AWS::Lambda::Function''])"
      by (rule assms(2))
    fix x assume "x \<in> set (get_resources cfn [''AWS::Lambda::Function''])"
    with all obtain ys where "LambdaInsightsLayer_resource x = Inr ys" by blast
    then show "\<forall>m\<in>set (projr (LambdaInsightsLayer_resource x)). path m = [''Resources'', fst x]"
      using LambdaInsightsLayer_resource_path [of x ys] by simp
  qed
  with one show "filter (\<lambda>m. path m = [''Resources'', key]) ms
                 = [RuleMatch [''Resources'', key] (layer_message key)]"
    by simp
qed

theorem insights_layer_absent_witness:
  "distinct (map fst (Resources
      \<lparr>Parameters = [],
       Resources = [(''Bare'', VDict [(''Type'', VStr ''AWS::Lambda::Function'')]),
                    (''Plain'', VDict [(''Type'', VStr ''AWS::Lambda::Function''),
                                      (''Properties'', VDict [(''Runtime'', VStr ''python3.9'')])])]\<rparr>))
   \<and> (''Plain'', VDict [(''Type'', VStr ''AWS::Lambda::Function''),
                          (''Properties'', VDict [(''Runtime'', VStr ''python3.9'')])])
       \<in> set (get_resources
            \<lparr>Parameters = [],
             Resources = [(''Bare'', VDict [(''Type'', VStr ''AWS::Lambda::Function'')]),
                          (''Plain'', VDict [(''Type'', VStr ''AWS::Lambda::Function''),
                                            (''Properties'', VDict [(''Runtime'', VStr ''python3.9'')])])]\<rparr>
            [''AWS::Lambda::Function''])
   \<and> lacks (VDict [(''Type'', VStr ''AWS::Lambda::Function''),
                      (''Properties'', VDict [(''Runtime'', VStr ''python3.9'')])]) ''Layers''
   \<and> LambdaInsightsLayer_match
        \<lparr>Parameters = [],
         Resources = [(''Bare'', VDict [(''Type'', VStr ''AWS::Lambda::Function'')]),
                      (''Plain'', VDict [(''Type'', VStr ''AWS::Lambda::Function''),
                                        (''Properties'', VDict [(''Runtime'', VStr ''python3.9'')])])]\<rparr>
       = Inr [RuleMatch [''Resources'', ''Bare''] (layer_message ''Bare''),
              RuleMatch [''Resources'', ''Plain''] (layer_message ''Plain'')]
   \<and> filter (\<lambda>m. path m = [''Resources'', ''Plain''])
        [RuleMatch [''Resources'', ''Bare''] (layer_message ''Bare''),
         RuleMatch [''Resources'', ''Plain''] (layer_message ''Plain'')]
       = [RuleMatch [''Resources'', ''Plain''] (layer_message ''Plain'')]"
proof -
  let ?plain = "VDict [(''Type'', VStr ''AWS::Lambda::Function''),
                       (''Properties'', VDict [(''Runtime'', VStr ''python3.9'')])]"
  let ?cfn = "\<lparr>Parameters = [],
       Resources = [(''Bare'', VDict [(''Type'', VStr ''AWS::Lambda::Function'')]),
                    (''Plain'', ?plain)]\<rparr>"
  have d: "distinct (map fst (Resources ?cfn))" by simp
  have m: "(''Plain'', ?plain) \<in> set (get_resources ?cfn [''AWS::Lambda::Function''])"
    by (simp add: get_resources_def has_type_def)
  have l: "lacks ?plain ''Layers''" by (simp add: lacks_def)
  have r: "LambdaInsightsLayer_match ?cfn
           = Inr [RuleMatch [''Resources'', ''Bare''] (layer_message ''Bare''),
                  RuleMatch [''Resources'', ''Plain''] (layer_message ''Plain'')]"
    by (simp add: LambdaInsightsLayer_match_def get_resources_def has_type_def
        LambdaInsightsLayer_resource_def)
  show ?thesis
    using d m l r insights_layer_absent [OF d m l] by simp
qed


section \<open>Resources without Properties\<close>

lemma on_failure_lacks:
  assumes "lacks resource ''DestinationConfig''"
  shows "on_failure resource = Inr VNull"
  using assms by (cases rule: lacks_cases) (simp_all add: on_failure_def)

lemma rule_targets_lacks:
  assumes "lacks resource ''Targets''"
  shows "rule_targets resource = Inr []"
  using assms by (cases rule: lacks_cases) (simp_all add: rule_targets_def)

lemma role_policies_lacks:
  assumes "lacks resource ''Policies''"
  shows "role_policies resource = Inr []"
  using assms by (cases rule: lacks_cases) (simp_all add: role_policies_def)

lemma LambdaInsightsPermission_function_lacks:
  assumes "map_of roles (function_name @ ''Role'') = Some role"
    and "lacks role ''ManagedPolicyArns''"
  shows "LambdaInsightsPermission_function roles function_name
         = Inr [RuleMatch [''Resources'', function_name] (permission_message function_name)]"
  using assms(2,1)
  by (cases rule: lacks_cases) (simp_all add: LambdaInsightsPermission_function_def)

lemma for_each_singletons:
  "(\<And>x. x \<in> set xs \<Longrightarrow> body x = Inr [g x]) \<Longrightarrow> for_each body xs = Inr (map g xs)"
  by (induction xs) simp_all

lemma for_each_nothing:
  "(\<And>x. x \<in> set xs \<Longrightarrow> body x = Inr []) \<Longrightarrow> for_each body xs = Inr []"
  by (induction xs) simp_all

text \<open>
  The rules E9003 to E9007 read Properties and the property they inspect with an empty
  default.  On a template whose inspected resources lack that property (no Properties
  key, or a Properties object without the key) their match returns normally and treats
  the value as empty.
\<close>

lemma absent_values_tolerated:
  "((\<forall>kv\<in>set (get_resources cfn [''AWS::Lambda::EventSourceMapping'']).
        lacks (snd kv) ''DestinationConfig'') \<longrightarrow>
      LambdaESMDestinationConfig_match cfn
        = Inr (map (\<lambda>kv. RuleMatch [''Resources'', fst kv] (esm_message (fst kv)))
                 (get_resources cfn [''AWS::Lambda::EventSourceMapping''])))
   \<and> ((\<forall>kv\<in>set (get_resources cfn [''AWS::Lambda::EventInvokeConfig'']).
          lacks (snd kv) ''DestinationConfig'')
        \<and> (\<forall>kv\<in>set (get_resources cfn [''AWS::Events::Rule'']). lacks (snd kv) ''Targets'') \<longrightarrow>
      LambdaRuleInvokeConfig_match cfn = Inr [])
   \<and> ((\<forall>kv\<in>set (get_resources cfn [''AWS::Lambda::Function'']). lacks (snd kv) ''Layers'') \<longrightarrow>
      LambdaInsightsLayer_match cfn
        = Inr (map (\<lambda>kv. RuleMatch [''Resources'', fst kv] (layer_message (fst kv)))
                 (get_resources cfn [''AWS::Lambda::Function''])))
   \<and> ((\<forall>kv\<in>set (get_resources cfn [''AWS::IAM::Role'']). lacks (snd kv) ''ManagedPolicyArns'')
        \<and> (\<forall>kv\<in>set (get_resources cfn [''AWS::Lambda::Function'']).
              fst kv @ ''Role'' \<in> set (map fst (get_resources cfn [''AWS::IAM::Role'']))) \<longrightarrow>
      LambdaInsightsPermission_match cfn
        = Inr (map (\<lambda>kv. RuleMatch [''Resources'', fst kv] (permission_message (fst kv)))
                 (get_resources cfn [''AWS::Lambda::Function''])))
   \<and> ((\<forall>kv\<in>set (get_resources cfn [''AWS::IAM::Role'']). lacks (snd kv) ''Policies'') \<longrightarrow>
      IAMPutEventsConditions_match cfn = Inr [])"
proof (intro conjI impI)
  assume "\<forall>kv\<in>set (get_resources cfn [''AWS::Lambda::EventSourceMapping'']).
            lacks (snd kv) ''DestinationConfig''"
  then show "LambdaESMDestinationConfig_match cfn
        = Inr (map (\<lambda>kv. RuleMatch [''Resources'', fst kv] (esm_message (fst kv)))
                 (get_resources cfn [''AWS::Lambda::EventSourceMapping'']))"
    unfolding LambdaESMDestinationConfig_match_def
    by (intro for_each_singletons)
      (simp add: LambdaESMDestinationConfig_resource_def on_failure_lacks)
next
  assume a: "(\<forall>kv\<in>set (get_resources cfn [''AWS::Lambda::EventInvokeConfig'']).
          lacks (snd kv) ''DestinationConfig'')
        \<and> (\<forall>kv\<in>set (get_resources cfn [''AWS::Events::Rule'']). lacks (snd kv) ''Targets'')"
  have "for_each invoke_config_function
          (map snd (get_resources cfn [''AWS::Lambda::EventInvokeConfig''])) = Inr []"
    using a by (intro for_each_nothing) (auto simp: invoke_config_function_def on_failure_lacks)
  moreover have "for_each (LambdaRuleInvokeConfig_rule fns []) (get_resources cfn [''AWS::Events::Rule''])
                 = Inr []" for fns
    using a by (intro for_each_nothing) (simp add: LambdaRuleInvokeConfig_rule_def rule_targets_lacks)
  ultimately show "LambdaRuleInvokeConfig_match cfn = Inr []"
    by (simp add: LambdaRuleInvokeConfig_match_def)
next
  assume "\<forall>kv\<in>set (get_resources cfn [''AWS::Lambda::Function'']). lacks (snd kv) ''Layers''"
  then show "LambdaInsightsLayer_match cfn
        = Inr (map (\<lambda>kv. RuleMatch [''Resources'', fst kv] (layer_message (fst kv)))
                 (get_resources cfn [''AWS::Lambda::Function'']))"
    unfolding LambdaInsightsLayer_match_def
    by (intro for_each_singletons) (auto simp: LambdaInsightsLayer_resource_lacks)
next
  let ?roles = "get_resources cfn [''AWS::IAM::Role'']"
  assume a: "(\<forall>kv\<in>set ?roles. lacks (snd kv) ''ManagedPolicyArns'')
        \<and> (\<forall>kv\<in>set (get_resources cfn [''AWS::Lambda::Function'']).
              fst kv @ ''Role'' \<in> set (map fst ?roles))"
  have "LambdaInsightsPermission_function ?roles f
        = Inr [RuleMatch [''Resources'', f] (permission_message f)]"
    if "f \<in> set (map fst (get_resources cfn [''AWS::Lambda::Function'']))" for f
  proof -
    from that a have "f @ ''Role'' \<in> set (map fst ?roles)" by auto
    then obtain role where role: "map_of ?roles (f @ ''Role'') = Some role"
      by (cases "map_of ?roles (f @ ''Role'')") (auto simp: map_of_eq_None_iff)
    then have "(f @ ''Role'', role) \<in> set ?roles" by (rule map_of_SomeD)
    with a have "lacks role ''ManagedPolicyArns''" by auto
    with role show ?thesis by (rule LambdaInsightsPermission_function_lacks)
  qed
  then have "for_each (LambdaInsightsPermission_function ?roles)
               (map fst (get_resources cfn [''AWS::Lambda::Function'']))
             = Inr (map (\<lambda>f. RuleMatch [''Resources'', f] (permission_message f))
                      (map fst (get_resources cfn [''AWS::Lambda::Function''])))"
    by (intro for_each_singletons)
  then show "LambdaInsightsPermission_match cfn
        = Inr (map (\<lambda>kv. RuleMatch [''Resources'', fst kv] (permission_message (fst kv)))
                 (get_resources cfn [''AWS::Lambda::Function'']))"
    by (simp add: LambdaInsightsPermission_match_def comp_def)
next
  assume "\<forall>kv\<in>set (get_resources cfn [''AWS::IAM::Role'']). lacks (snd kv) ''Policies''"
  then show "IAMPutEventsConditions_match cfn = Inr []"
    unfolding IAMPutEventsConditions_match_def
    by (intro for_each_nothing) (simp add: IAMPutEventsConditions_role_def role_policies_lacks)
qed

text \<open>
  C3.  On a template whose resources have a Type and no Properties, the runtime rule
  and the log-group rule do not return normally: they read Properties without a
  default, so the runtime rule raises AttributeError on the function and the log-group
  rule raises TypeError on the log group.  The other rules, which read Properties with
  an empty default, return normally on the same template.
\<close>

theorem missing_properties_raises:
  "Python39Rule_match bare_template = Inl AttributeError
   \<and> LambdaLogGroupRule_match bare_template = Inl TypeError
   \<and> LambdaESMDestinationConfig_match bare_template
       = Inr [RuleMatch [''Resources'', ''Mapping''] (esm_message ''Mapping'')]
   \<and> LambdaRuleInvokeConfig_match bare_template = Inr []
   \<and> LambdaInsightsLayer_match bare_template
       = Inr [RuleMatch [''Resources'', ''Fn''] (layer_message ''Fn'')]
   \<and> LambdaInsightsPermission_match bare_template
       = Inr [RuleMatch [''Resources'', ''Fn''] (permission_message ''Fn'')]
   \<and> IAMPutEventsConditions_match bare_template = Inr []"
  by (simp add: bare_template_def get_resources_def has_type_def
      Python39Rule_match_def Python39Rule_resource_def properties_runtime_def
      LambdaLogGroupRule_match_def log_group_known_def
      LambdaESMDestinationConfig_match_def LambdaESMDestinationConfig_resource_def on_failure_def
      LambdaRuleInvokeConfig_match_def invoke_config_function_def
      LambdaRuleInvokeConfig_rule_def rule_targets_def
      LambdaInsightsLayer_match_def LambdaInsightsLayer_resource_def
      LambdaInsightsPermission_match_def LambdaInsightsPermission_function_def
      IAMPutEventsConditions_match_def IAMPutEventsConditions_role_def role_policies_def)

section \<open>E9002: which functions are covered\<close>








lemma length_filter_name:
  "distinct names \<Longrightarrow>
   length (filter (\<lambda>n. P n \<and> n = f) names) = (if f \<in> set names \<and> P f then 1 else 0)"
  by (induction names) auto

lemma count_at_path:
  assumes "distinct names"
  shows "length (filter (\<lambda>m. path m = [''Resources'', f])
                 (map (\<lambda>n. RuleMatch [''Resources'', n] (msg n)) (filter P names)))
         = (if f \<in> set names \<and> P f then 1 else 0)"
proof -
  have "filter (\<lambda>m. path m = [''Resources'', f])
          (map (\<lambda>n. RuleMatch [''Resources'', n] (msg n)) (filter P names))
        = map (\<lambda>n. RuleMatch [''Resources'', n] (msg n)) (filter (\<lambda>n. P n \<and> n = f) names)"
    by (simp add: filter_map comp_def RuleMatch_def)
  then show ?thesis using assms by (simp add: length_filter_name)
qed





section \<open>E9006: the companion role\<close>

lemma role_shaped_cases:
  assumes "role_shaped role"
  obtains (absent) r where "role = VDict r" and "map_of r ''Properties'' = None"
  | (without) r props where "role = VDict r" and "map_of r ''Properties'' = Some (VDict props)"
      and "map_of props ''ManagedPolicyArns'' = None"
  | (listed) r props arns where "role = VDict r" and "map_of r ''Properties'' = Some (VDict props)"
      and "map_of props ''ManagedPolicyArns'' = Some (VList arns)"
proof (cases role)
  case (VDict r)
  show ?thesis
  proof (cases "map_of r ''Properties''")
    case None
    with VDict absent show ?thesis by blast
  next
    case (Some v)
    show ?thesis
    proof (cases v)
      case props: (VDict props)
      show ?thesis
      proof (cases "map_of props ''ManagedPolicyArns''")
        case None
        with VDict Some props without show ?thesis by blast
      next
        case arns: (Some a)
        with assms VDict Some props obtain xs where "a = VList xs"
          by (cases a) (simp_all add: role_shaped_def)
        with VDict Some props arns listed show ?thesis by blast
      qed
    qed (use assms VDict Some in \<open>simp_all add: role_shaped_def\<close>)
  qed
qed (use assms in \<open>simp_all add: role_shaped_def\<close>)

lemma permission_present:
  assumes "map_of roles (f @ ''Role'') = Some role" and "role_shaped role"
  shows "LambdaInsightsPermission_function roles f
         = Inr (if \<not> has_insights_policy roles f
                then [RuleMatch [''Resources'', f] (permission_message f)] else [])"
  using assms(2,1)
  by (cases rule: role_shaped_cases)
    (simp_all add: LambdaInsightsPermission_function_def has_insights_policy_def
      managed_policy_arns_def)

lemma permission_missing:
  assumes "map_of roles (f @ ''Role'') = None"
  shows "LambdaInsightsPermission_function roles f = Inl KeyError"
  using assms by (simp add: LambdaInsightsPermission_function_def)

lemma concat_map_if:
  "concat (map (\<lambda>x. if P x then [h x] else []) xs) = map h (filter P xs)"
  by (induction xs) simp_all

lemma insights_permission_shaped:
  assumes "distinct (map fst (Resources cfn))"
    and "\<forall>kv\<in>set (get_resources cfn [''AWS::IAM::Role'']). role_shaped (snd kv)"
  shows "(LambdaInsightsPermission_match cfn = Inl KeyError \<longleftrightarrow>
            (\<exists>f\<in>set (map fst (get_resources cfn [''AWS::Lambda::Function''])).
               f @ ''Role'' \<notin> set (map fst (get_resources cfn [''AWS::IAM::Role'']))))
       \<and> (\<forall>e. LambdaInsightsPermission_match cfn = Inl e \<longrightarrow> e = KeyError)
       \<and> ((\<forall>f\<in>set (map fst (get_resources cfn [''AWS::Lambda::Function''])).
              f @ ''Role'' \<in> set (map fst (get_resources cfn [''AWS::IAM::Role'']))) \<longrightarrow>
            LambdaInsightsPermission_match cfn
              = Inr (map (\<lambda>f. RuleMatch [''Resources'', f] (permission_message f))
                       (filter (\<lambda>f. \<not> has_insights_policy (get_resources cfn [''AWS::IAM::Role'']) f)
                          (map fst (get_resources cfn [''AWS::Lambda::Function''])))))
       \<and> (\<forall>ms f. LambdaInsightsPermission_match cfn = Inr ms \<longrightarrow>
              length (filter (\<lambda>m. path m = [''Resources'', f]) ms)
                = (if f \<in> set (map fst (get_resources cfn [''AWS::Lambda::Function'']))
                      \<and> \<not> has_insights_policy (get_resources cfn [''AWS::IAM::Role'']) f
                   then 1 else 0))"
proof -
  let ?roles = "get_resources cfn [''AWS::IAM::Role'']"
  let ?names = "map fst (get_resources cfn [''AWS::Lambda::Function''])"
  let ?body = "LambdaInsightsPermission_function ?roles"
  let ?mk = "\<lambda>f. RuleMatch [''Resources'', f] (permission_message f)"
  let ?missing = "\<lambda>f. f @ ''Role'' \<notin> set (map fst ?roles)"
  have run: "LambdaInsightsPermission_match cfn = for_each ?body ?names"
    by (simp add: LambdaInsightsPermission_match_def)
  have missing: "?body f = Inl KeyError" if "?missing f" for f
    using that by (intro permission_missing) (simp add: map_of_eq_None_iff)
  have present: "?body f = Inr (if \<not> has_insights_policy ?roles f then [?mk f] else [])"
    if "\<not> ?missing f" for f
  proof -
    from that obtain role where role: "map_of ?roles (f @ ''Role'') = Some role"
      by (cases "map_of ?roles (f @ ''Role'')") (auto simp: map_of_eq_None_iff)
    then have "(f @ ''Role'', role) \<in> set ?roles" by (rule map_of_SomeD)
    with assms(2) have "role_shaped role" by auto
    with role show ?thesis by (rule permission_present)
  qed
  have all_present: "for_each ?body ?names
        = Inr (map ?mk (filter (\<lambda>f. \<not> has_insights_policy ?roles f) ?names))"
    if "\<forall>f\<in>set ?names. \<not> ?missing f"
  proof -
    have "for_each ?body ?names
          = Inr (concat (map (\<lambda>f. if \<not> has_insights_policy ?roles f then [?mk f] else []) ?names))"
      using that present by (intro for_each_all_Inr) blast
    then show ?thesis by (simp only: concat_map_if)
  qed
  have errors: "e = KeyError \<and> (\<exists>f\<in>set ?names. ?missing f)" if "for_each ?body ?names = Inl e" for e
  proof -
    from that obtain f where f: "f \<in> set ?names" and "?body f = Inl e"
      using for_each_Inl by blast
    with present [of f] missing [of f] show ?thesis by (cases "?missing f") auto
  qed
  have some_missing: "\<exists>e. for_each ?body ?names = Inl e" if "\<exists>f\<in>set ?names. ?missing f"
  proof (cases "for_each ?body ?names")
    case (Inr ms)
    then have "\<forall>f\<in>set ?names. \<exists>ys. ?body f = Inr ys" by (simp add: for_each_Inr_iff)
    with that missing show ?thesis by fastforce
  qed blast
  have counted: "length (filter (\<lambda>m. path m = [''Resources'', f]) ms)
                = (if f \<in> set ?names \<and> \<not> has_insights_policy ?roles f then 1 else 0)"
    if "for_each ?body ?names = Inr ms" for ms f
  proof -
    have "\<forall>f\<in>set ?names. \<not> ?missing f"
      using some_missing that by fastforce
    with that have ms: "ms = map ?mk (filter (\<lambda>f. \<not> has_insights_policy ?roles f) ?names)"
      using all_present by simp
    have "distinct ?names" using assms(1) by (rule distinct_get_resources)
    then show ?thesis unfolding ms by (rule count_at_path)
  qed
  show ?thesis
    unfolding run
  proof (intro conjI allI impI iffI)
    assume "for_each ?body ?names = Inl KeyError"
    then show "\<exists>f\<in>set ?names. ?missing f" using errors by blast
  next
    assume "\<exists>f\<in>set ?names. ?missing f"
    then show "for_each ?body ?names = Inl KeyError" using some_missing errors by blast
  next
    fix e assume "for_each ?body ?names = Inl e"
    then show "e = KeyError" using errors by blast
  next
    assume "\<forall>f\<in>set ?names. f @ ''Role'' \<in> set (map fst ?roles)"
    then show "for_each ?body ?names
        = Inr (map ?mk (filter (\<lambda>f. \<not> has_insights_policy ?roles f) ?names))"
      using all_present by blast
  next
    fix ms f assume "for_each ?body ?names = Inr ms"
    then show "length (filter (\<lambda>m. path m = [''Resources'', f]) ms)
                = (if f \<in> set ?names \<and> \<not> has_insights_policy ?roles f then 1 else 0)"
      by (rule counted)
  qed
qed

lemma bind_eq_Inl: "bind r f = Inl e \<longleftrightarrow> r = Inl e \<or> (\<exists>x. r = Inr x \<and> f x = Inl e)"
  by (cases r) simp_all

lemma py_get_error: "py_get v k dflt = Inl e \<Longrightarrow> e = AttributeError"
  by (cases v) simp_all

lemma str_in_error: "str_in s v = Inl e \<Longrightarrow> e = TypeError"
  by (cases v) simp_all

lemma permission_KeyError:
  assumes "LambdaInsightsPermission_function roles f = Inl KeyError"
  shows "map_of roles (f @ ''Role'') = None"
proof (rule ccontr)
  assume "map_of roles (f @ ''Role'') \<noteq> None"
  then obtain role where "map_of roles (f @ ''Role'') = Some role" by blast
  with assms show False
    by (auto simp: LambdaInsightsPermission_function_def bind_eq_Inl
        dest: py_get_error str_in_error split: if_splits)
qed

text \<open>
  A companion role is absent and the error is not a KeyError: the role of an earlier
  function has a null ManagedPolicyArns, and the membership test on it raises
  TypeError before the missing role is looked up.
\<close>

theorem insights_permission_other_error:
  "''Worker'' \<in> set (map fst (get_resources malformed_role_template [''AWS::Lambda::Function'']))
   \<and> ''Worker'' @ ''Role''
       \<notin> set (map fst (get_resources malformed_role_template [''AWS::IAM::Role'']))
   \<and> LambdaInsightsPermission_match malformed_role_template = Inl TypeError"
  by (simp add: malformed_role_template_def get_resources_def has_type_def
      LambdaInsightsPermission_match_def LambdaInsightsPermission_function_def)

text \<open>
  C5, as the code has it.  With distinct resource names, a function without a role
  named after it with the suffix \<open>Role\<close> always makes the Insights-permission rule raise, and a KeyError of
  the rule always means that such a role is absent.  When the IAM roles have Properties
  absent or an object and ManagedPolicyArns absent or a list, the rule raises KeyError
  exactly when some function has no such role, and raises nothing else; when every
  such role exists it returns one violation, in document order, for every function
  whose role's ManagedPolicyArns lack the Insights policy ARN, and none for a function
  whose role has it.
\<close>

theorem insights_permission:
  assumes "distinct (map fst (Resources cfn))"
  shows "((\<exists>f\<in>set (map fst (get_resources cfn [''AWS::Lambda::Function''])).
             f @ ''Role'' \<notin> set (map fst (get_resources cfn [''AWS::IAM::Role''])))
          \<longrightarrow> (\<exists>e. LambdaInsightsPermission_match cfn = Inl e))
       \<and> (LambdaInsightsPermission_match cfn = Inl KeyError
          \<longrightarrow> (\<exists>f\<in>set (map fst (get_resources cfn [''AWS::Lambda::Function''])).
                 f @ ''Role'' \<notin> set (map fst (get_resources cfn [''AWS::IAM::Role'']))))
       \<and> ((\<forall>kv\<in>set (get_resources cfn [''AWS::IAM::Role'']). role_shaped (snd kv)) \<longrightarrow>
            (LambdaInsightsPermission_match cfn = Inl KeyError \<longleftrightarrow>
               (\<exists>f\<in>set (map fst (get_resources cfn [''AWS::Lambda::Function''])).
                  f @ ''Role'' \<notin> set (map fst (get_resources cfn [''AWS::IAM::Role'']))))
            \<and> (\<forall>e. LambdaInsightsPermission_match cfn = Inl e \<longrightarrow> e = KeyError)
            \<and> ((\<forall>f\<in>set (map fst (get_resources cfn [''AWS::Lambda::Function''])).
                   f @ ''Role'' \<in> set (map fst (get_resources cfn [''AWS::IAM::Role''])))
                \<longrightarrow> LambdaInsightsPermission_match cfn
                      = Inr (map (\<lambda>f. RuleMatch [''Resources'', f] (permission_message f))
                               (filter (\<lambda>f. \<not> has_insights_policy
                                                  (get_resources cfn [''AWS::IAM::Role'']) f)
                                  (map fst (get_resources cfn [''AWS::Lambda::Function''])))))
            \<and> (\<forall>ms f. LambdaInsightsPermission_match cfn = Inr ms \<longrightarrow>
                  length (filter (\<lambda>m. path m = [''Resources'', f]) ms)
                    = (if f \<in> set (map fst (get_resources cfn [''AWS::Lambda::Function'']))
                          \<and> \<not> has_insights_policy (get_resources cfn [''AWS::IAM::Role'']) f
                       then 1 else 0)))"
proof -
  let ?roles = "get_resources cfn [''AWS::IAM::Role'']"
  let ?names = "map fst (get_resources cfn [''AWS::Lambda::Function''])"
  let ?body = "LambdaInsightsPermission_function ?roles"
  let ?absent = "\<exists>f\<in>set ?names. f @ ''Role'' \<notin> set (map fst ?roles)"
  have run: "LambdaInsightsPermission_match cfn = for_each ?body ?names"
    by (simp add: LambdaInsightsPermission_match_def)
  have raises: "?absent \<longrightarrow> (\<exists>e. LambdaInsightsPermission_match cfn = Inl e)"
  proof
    assume ?absent
    then obtain f where f: "f \<in> set ?names" and "map_of ?roles (f @ ''Role'') = None"
      by (auto simp: map_of_eq_None_iff)
    then have "?body f = Inl KeyError" by (simp add: permission_missing)
    with f have "\<not> (\<forall>f\<in>set ?names. \<exists>ys. ?body f = Inr ys)" by force
    then have "\<nexists>ms. for_each ?body ?names = Inr ms" by (simp add: for_each_Inr_iff)
    then show "\<exists>e. LambdaInsightsPermission_match cfn = Inl e"
      unfolding run by (cases "for_each ?body ?names") auto
  qed
  have not_found: "LambdaInsightsPermission_match cfn = Inl KeyError \<longrightarrow> ?absent"
  proof
    assume "LambdaInsightsPermission_match cfn = Inl KeyError"
    then obtain f where "f \<in> set ?names" and "?body f = Inl KeyError"
      unfolding run using for_each_Inl by blast
    then show ?absent
      using permission_KeyError [of ?roles f] by (auto simp: map_of_eq_None_iff)
  qed
  have shaped: "(\<forall>kv\<in>set ?roles. role_shaped (snd kv)) \<longrightarrow>
            (LambdaInsightsPermission_match cfn = Inl KeyError \<longleftrightarrow> ?absent)
            \<and> (\<forall>e. LambdaInsightsPermission_match cfn = Inl e \<longrightarrow> e = KeyError)
            \<and> ((\<forall>f\<in>set ?names. f @ ''Role'' \<in> set (map fst ?roles))
                \<longrightarrow> LambdaInsightsPermission_match cfn
                      = Inr (map (\<lambda>f. RuleMatch [''Resources'', f] (permission_message f))
                               (filter (\<lambda>f. \<not> has_insights_policy ?roles f) ?names)))
            \<and> (\<forall>ms f. LambdaInsightsPermission_match cfn = Inr ms \<longrightarrow>
                  length (filter (\<lambda>m. path m = [''Resources'', f]) ms)
                    = (if f \<in> set ?names \<and> \<not> has_insights_policy ?roles f then 1 else 0))"
    using assms by (intro impI) (rule insights_permission_shaped)
  show ?thesis
    by (rule conjI [OF raises conjI [OF not_found shaped]])
qed

theorem insights_permission_witness:
  "distinct (map fst (Resources roles_template))
   \<and> list_all (\<lambda>kv. role_shaped (snd kv))
        (get_resources roles_template [''AWS::IAM::Role''])
   \<and> list_all (\<lambda>f. f @ ''Role'' \<in> set (map fst (get_resources roles_template [''AWS::IAM::Role''])))
        (map fst (get_resources roles_template [''AWS::Lambda::Function'']))
   \<and> LambdaInsightsPermission_match roles_template
       = Inr [\<lparr>path = [''Resources'', ''Worker''],
               message = ''Function Worker does not have the CloudWatch Lambda Insights managed policy''\<rparr>]
   \<and> distinct (map fst (Resources missing_role_template))
   \<and> list_all (\<lambda>kv. role_shaped (snd kv))
        (get_resources missing_role_template [''AWS::IAM::Role''])
   \<and> (\<exists>f\<in>set (map fst (get_resources missing_role_template [''AWS::Lambda::Function''])).
          f @ ''Role'' \<notin> set (map fst (get_resources missing_role_template [''AWS::IAM::Role''])))
   \<and> LambdaInsightsPermission_match missing_role_template = Inl KeyError"
proof -
  have d1: "distinct (map fst (Resources roles_template))"
    and d2: "distinct (map fst (Resources missing_role_template))"
    by (simp_all add: roles_template_def missing_role_template_def)
  have s1: "\<forall>kv\<in>set (get_resources roles_template [''AWS::IAM::Role'']). role_shaped (snd kv)"
    and s2: "\<forall>kv\<in>set (get_resources missing_role_template [''AWS::IAM::Role'']). role_shaped (snd kv)"
    by (simp_all add: roles_template_def missing_role_template_def get_resources_def has_type_def
        role_shaped_def)
  have p1: "\<forall>f\<in>set (map fst (get_resources roles_template [''AWS::Lambda::Function''])).
          f @ ''Role'' \<in> set (map fst (get_resources roles_template [''AWS::IAM::Role'']))"
    and p2: "\<exists>f\<in>set (map fst (get_resources missing_role_template [''AWS::Lambda::Function''])).
          f @ ''Role'' \<notin> set (map fst (get_resources missing_role_template [''AWS::IAM::Role'']))"
    by (simp_all add: roles_template_def missing_role_template_def get_resources_def has_type_def)
  have r1: "map (\<lambda>f. RuleMatch [''Resources'', f] (permission_message f))
              (filter (\<lambda>f. \<not> has_insights_policy (get_resources roles_template [''AWS::IAM::Role'']) f)
                 (map fst (get_resources roles_template [''AWS::Lambda::Function''])))
            = [RuleMatch [''Resources'', ''Worker''] (permission_message ''Worker'')]"
    by (simp add: roles_template_def get_resources_def has_type_def has_insights_policy_def
        managed_policy_arns_def policy_arn_def)
  have m1: "LambdaInsightsPermission_match roles_template
       = Inr [RuleMatch [''Resources'', ''Worker''] (permission_message ''Worker'')]"
    using insights_permission [OF d1] s1 p1 r1 by simp
  have m2: "LambdaInsightsPermission_match missing_role_template = Inl KeyError"
    using insights_permission [OF d2] s2 p2 by simp
  show ?thesis
    using d1 d2 s1 s2 p1 p2 m1 m2
    by (simp add: list_all_iff RuleMatch_def permission_message_def)
qed


section \<open>E9007: a role is flagged once\<close>

lemma source_lookup_reads:
  assumes "bind (py_get (VDict st) ''Condition'' (VDict [])) (\<lambda>condition.
           bind (py_get condition ''StringEquals'' (VDict [])) (\<lambda>equals.
           bind (py_get equals ''events:source'' VNull) (\<lambda>source. Inr (falsy source)))) = Inr b"
  shows "b = falsy (source_condition (VDict st))"
proof (cases "map_of st ''Condition''")
  case None
  with assms show ?thesis by (simp add: source_condition_def)
next
  case (Some c)
  show ?thesis
  proof (cases c)
    case (VDict condition)
    show ?thesis
    proof (cases "map_of condition ''StringEquals''")
      case None
      with assms Some VDict show ?thesis by (simp add: source_condition_def)
    next
      case eq: (Some e)
      with assms Some VDict show ?thesis
        by (cases e) (auto simp: source_condition_def split: option.splits)
    qed
  qed (use assms Some in \<open>simp_all\<close>)
qed

lemma falsy_empty_value: "falsy v = empty_value v"
  by (cases v) (auto simp: empty_value_def)

lemma statement_matches_reads:
  assumes "statement_matches statement = Inr b"
  shows "b = qualifies statement"
proof (cases statement)
  case (VDict st)
  let ?action = "case map_of st ''Action'' of Some v \<Rightarrow> v | None \<Rightarrow> VDict []"
  show ?thesis
  proof (cases "str_in ''events:PutEvents'' ?action")
    case (Inl e)
    with assms VDict show ?thesis by (simp add: statement_matches_def)
  next
    case (Inr puts)
    have has: "has_put_events statement = puts"
    proof (cases "map_of st ''Action''")
      case None
      with Inr VDict show ?thesis by (simp add: has_put_events_def)
    next
      case (Some action)
      with Inr VDict show ?thesis by (cases action) (simp_all add: has_put_events_def)
    qed
    show ?thesis
    proof (cases puts)
      case True
      with assms VDict Inr have "b = falsy (source_condition (VDict st))"
        by (intro source_lookup_reads) (simp add: statement_matches_def)
      with has True VDict show ?thesis by (simp add: qualifies_def falsy_empty_value)
    next
      case False
      with assms VDict Inr has show ?thesis by (simp add: statement_matches_def qualifies_def)
    qed
  qed
qed (use assms in \<open>simp_all add: statement_matches_def\<close>)

lemma first_matching_reads:
  "first_matching statements = Inr b \<Longrightarrow> b = (\<exists>statement\<in>set statements. qualifies statement)"
proof (induction statements)
  case Nil
  then show ?case by simp
next
  case (Cons statement rest)
  from Cons.prems obtain m where m: "statement_matches statement = Inr m"
    and cont: "(if m then Inr True else first_matching rest) = Inr b"
    by (auto simp: bind_eq_Inr)
  from m have q: "m = qualifies statement" by (rule statement_matches_reads)
  show ?case
  proof (cases m)
    case True
    with cont q show ?thesis by simp
  next
    case False
    with cont have "first_matching rest = Inr b" by simp
    then have "b = (\<exists>statement\<in>set rest. qualifies statement)" by (rule Cons.IH)
    with False q show ?thesis by simp
  qed
qed

lemma match_policy_reads:
  assumes "IAMPutEventsConditions_match_policy policy = Inr b"
  shows "b = (\<exists>statement\<in>set (statements_of policy). qualifies statement)"
proof -
  from assms obtain statements where "policy_statements policy = Inr statements"
    and "first_matching statements = Inr b"
    by (auto simp: IAMPutEventsConditions_match_policy_def bind_eq_Inr)
  then show ?thesis
    using first_matching_reads [of statements b] by (simp add: statements_of_def)
qed

lemma scan_policies_reads:
  "scan_policies found policies = Inr b \<Longrightarrow>
   b = (found \<or> (\<exists>policy\<in>set policies. \<exists>statement\<in>set (statements_of policy). qualifies statement))"
proof (induction policies arbitrary: found)
  case Nil
  then show ?case by simp
next
  case (Cons policy rest)
  from Cons.prems obtain m where m: "IAMPutEventsConditions_match_policy policy = Inr m"
    and cont: "scan_policies (if m then True else found) rest = Inr b"
    by (auto simp: bind_eq_Inr)
  from m have "m = (\<exists>statement\<in>set (statements_of policy). qualifies statement)"
    by (rule match_policy_reads)
  with Cons.IH [OF cont] show ?case by auto
qed

lemma role_reads:
  assumes "IAMPutEventsConditions_role kv = Inr ms"
  shows "ms = (if role_flagged (snd kv)
               then [RuleMatch [''Resources'', fst kv] (put_events_message (fst kv))] else [])"
proof -
  from assms obtain policies found where p: "role_policies (snd kv) = Inr policies"
    and f: "scan_policies False policies = Inr found"
    and ms: "ms = (if found then [RuleMatch [''Resources'', fst kv] (put_events_message (fst kv))]
                   else [])"
    by (auto simp: IAMPutEventsConditions_role_def bind_eq_Inr)
  from f have "found = (\<exists>policy\<in>set policies. \<exists>statement\<in>set (statements_of policy). qualifies statement)"
    using scan_policies_reads [of False policies found] by simp
  with p have "found = role_flagged (snd kv)"
    by (simp add: role_flagged_def policies_of_def)
  with ms show ?thesis by simp
qed

lemma statement_shaped_total:
  assumes "statement_shaped statement"
  shows "\<exists>b. statement_matches statement = Inr b"
proof (cases statement)
  case (VDict st)
  let ?action = "case map_of st ''Action'' of Some v \<Rightarrow> v | None \<Rightarrow> VDict []"
  have action: "\<exists>puts. str_in ''events:PutEvents'' ?action = Inr puts"
  proof (cases "map_of st ''Action''")
    case None
    then show ?thesis by auto
  next
    case (Some a)
    with assms VDict show ?thesis by (cases a) (auto simp: statement_shaped_def)
  qed
  have source: "\<exists>b. bind (py_get (VDict st) ''Condition'' (VDict [])) (\<lambda>condition.
           bind (py_get condition ''StringEquals'' (VDict [])) (\<lambda>equals.
           bind (py_get equals ''events:source'' VNull) (\<lambda>source. Inr (falsy source)))) = Inr b"
  proof (cases "map_of st ''Condition''")
    case None
    then show ?thesis by auto
  next
    case (Some c)
    show ?thesis
    proof (cases c)
      case condition: (VDict condition)
      show ?thesis
      proof (cases "map_of condition ''StringEquals''")
        case None
        with Some condition show ?thesis by auto
      next
        case eq: (Some e)
        with assms VDict Some condition show ?thesis
          by (cases e) (auto simp: statement_shaped_def)
      qed
    qed (use assms VDict Some in \<open>auto simp: statement_shaped_def\<close>)
  qed
  from action obtain puts where "str_in ''events:PutEvents'' ?action = Inr puts" by blast
  with source VDict show ?thesis by (cases puts) (auto simp: statement_matches_def)
qed (use assms in \<open>auto simp: statement_shaped_def\<close>)

lemma first_matching_total:
  "list_all statement_shaped statements \<Longrightarrow> \<exists>b. first_matching statements = Inr b"
proof (induction statements)
  case Nil
  then show ?case by auto
next
  case (Cons statement rest)
  then obtain m where "statement_matches statement = Inr m"
    using statement_shaped_total [of statement] by auto
  with Cons show ?case by (cases m) auto
qed

lemma policy_shaped_total:
  assumes "policy_shaped policy"
  shows "\<exists>b. IAMPutEventsConditions_match_policy policy = Inr b"
proof (cases policy)
  case (VDict p)
  show ?thesis
  proof (cases "map_of p ''PolicyDocument''")
    case None
    with VDict show ?thesis
      by (auto simp: IAMPutEventsConditions_match_policy_def policy_statements_def)
  next
    case (Some doc)
    show ?thesis
    proof (cases doc)
      case document: (VDict document)
      show ?thesis
      proof (cases "map_of document ''Statement''")
        case None
        with VDict Some document show ?thesis
          by (auto simp: IAMPutEventsConditions_match_policy_def policy_statements_def)
      next
        case st: (Some statements)
        with assms VDict Some document show ?thesis
          by (cases statements)
            (auto simp: policy_shaped_def IAMPutEventsConditions_match_policy_def
              policy_statements_def first_matching_total)
      qed
    qed (use assms VDict Some in \<open>simp_all add: policy_shaped_def\<close>)
  qed
qed (use assms in \<open>simp_all add: policy_shaped_def\<close>)

lemma scan_policies_total:
  "list_all policy_shaped policies \<Longrightarrow> \<exists>b. scan_policies found policies = Inr b"
proof (induction policies arbitrary: found)
  case Nil
  then show ?case by auto
next
  case (Cons policy rest)
  then obtain m where "IAMPutEventsConditions_match_policy policy = Inr m"
    using policy_shaped_total [of policy] by auto
  with Cons show ?case by simp
qed

lemma policies_shaped_total:
  assumes "policies_shaped (snd kv)"
  shows "\<exists>ms. IAMPutEventsConditions_role kv = Inr ms"
proof -
  have "\<exists>policies. role_policies (snd kv) = Inr policies \<and> list_all policy_shaped policies"
  proof (cases "snd kv")
    case (VDict r)
    show ?thesis
    proof (cases "map_of r ''Properties''")
      case None
      with VDict show ?thesis by (simp add: role_policies_def)
    next
      case (Some v)
      show ?thesis
      proof (cases v)
        case props: (VDict props)
        show ?thesis
        proof (cases "map_of props ''Policies''")
          case None
          with VDict Some props show ?thesis by (simp add: role_policies_def)
        next
          case ps: (Some policies)
          with assms VDict Some props show ?thesis
            by (cases policies) (simp_all add: policies_shaped_def role_policies_def)
        qed
      qed (use assms VDict Some in \<open>simp_all add: policies_shaped_def\<close>)
    qed
  qed (use assms in \<open>simp_all add: policies_shaped_def\<close>)
  then obtain policies where p: "role_policies (snd kv) = Inr policies"
    and "list_all policy_shaped policies" by blast
  then obtain found where "scan_policies False policies = Inr found"
    using scan_policies_total by blast
  with p show ?thesis by (simp add: IAMPutEventsConditions_role_def)
qed

text \<open>
  A role is flagged although none of its statements has the action in its set of
  actions without a condition on the key: role \<open>Empty\<close> has a condition on
  \<open>events:source\<close> whose value is empty, and the action of role \<open>Batch\<close> only holds
  \<^verbatim>\<open>events:PutEvents\<close> as a substring.
\<close>

theorem put_events_loose_tests:
  "\<not> spec_qualifies empty_source_statement
   \<and> \<not> spec_qualifies batch_statement
   \<and> IAMPutEventsConditions_match loose_template
       = Inr [\<lparr>path = [''Resources'', ''Empty''],
               message = ''IAM role Empty does not have an events:source condition for the events:PutEvents action''\<rparr>,
              \<lparr>path = [''Resources'', ''Batch''],
               message = ''IAM role Batch does not have an events:source condition for the events:PutEvents action''\<rparr>]"
proof -
  have "sublist ''events:PutEvents'' ''events:PutEventsBatch''"
    using sublist_append_rightI [of "''events:PutEvents''" "''Batch''"] by simp
  then show ?thesis
    by (simp add: spec_qualifies_def spec_has_action_def spec_has_source_condition_def
        empty_source_statement_def batch_statement_def loose_template_def
        get_resources_def has_type_def IAMPutEventsConditions_match_def
        IAMPutEventsConditions_role_def role_policies_def IAMPutEventsConditions_match_policy_def
        policy_statements_def statement_matches_def RuleMatch_def put_events_message_def)
qed

text \<open>
  C6, as the code has it.  With distinct resource names: the PutEvents rule returns
  normally on roles of the expected shape, and whenever it returns, its result is one
  violation, in document order, for every role that has, in some inline policy, at
  least one statement whose Action contains \<^verbatim>\<open>events:PutEvents\<close> (an element of a list, a
  substring of a string, a key of an object) and whose \<open>StringEquals\<close> condition on
  \<open>events:source\<close> is absent or has an empty value.  So every role has at most one
  violation, however many of its statements qualify, and has one exactly when some
  statement qualifies in that sense.
\<close>

theorem put_events_flags_role_once:
  assumes "distinct (map fst (Resources cfn))"
  shows "((\<forall>kv\<in>set (get_resources cfn [''AWS::IAM::Role'']). policies_shaped (snd kv)) \<longrightarrow>
            (\<exists>ms. IAMPutEventsConditions_match cfn = Inr ms))
       \<and> (\<forall>ms. IAMPutEventsConditions_match cfn = Inr ms \<longrightarrow>
             ms = map (\<lambda>kv. RuleMatch [''Resources'', fst kv] (put_events_message (fst kv)))
                    (filter (\<lambda>kv. role_flagged (snd kv)) (get_resources cfn [''AWS::IAM::Role'']))
             \<and> (\<forall>kv\<in>set (get_resources cfn [''AWS::IAM::Role'']).
                   length (filter (\<lambda>m. path m = [''Resources'', fst kv]) ms)
                     = (if role_flagged (snd kv) then 1 else 0)))"
proof (intro conjI allI impI ballI)
  let ?roles = "get_resources cfn [''AWS::IAM::Role'']"
  let ?mk = "\<lambda>kv. RuleMatch [''Resources'', fst kv] (put_events_message (fst kv))"
  let ?g = "\<lambda>kv. if role_flagged (snd kv) then [?mk kv] else []"
  {
    assume "\<forall>kv\<in>set ?roles. policies_shaped (snd kv)"
    then have "\<forall>kv\<in>set ?roles. \<exists>ys. IAMPutEventsConditions_role kv = Inr ys"
      using policies_shaped_total by blast
    then show "\<exists>ms. IAMPutEventsConditions_match cfn = Inr ms"
      by (simp add: IAMPutEventsConditions_match_def for_each_Inr_iff)
  }
  fix ms
  assume "IAMPutEventsConditions_match cfn = Inr ms"
  then have each: "\<forall>kv\<in>set ?roles. \<exists>ys. IAMPutEventsConditions_role kv = Inr ys"
    and cat: "ms = concat (map (\<lambda>kv. projr (IAMPutEventsConditions_role kv)) ?roles)"
    by (simp_all add: IAMPutEventsConditions_match_def for_each_Inr_iff)
  have "map (\<lambda>kv. projr (IAMPutEventsConditions_role kv)) ?roles = map ?g ?roles"
  proof (rule map_cong [OF refl])
    fix kv assume "kv \<in> set ?roles"
    with each obtain ys where "IAMPutEventsConditions_role kv = Inr ys" by blast
    then show "projr (IAMPutEventsConditions_role kv) = ?g kv"
      using role_reads [of kv ys] by simp
  qed
  with cat have ms: "ms = concat (map ?g ?roles)" by simp
  then show "ms = map ?mk (filter (\<lambda>kv. role_flagged (snd kv)) ?roles)"
    by (simp only: concat_map_if)
  fix kv
  assume kv: "kv \<in> set ?roles"
  have "filter (\<lambda>m. path m = [''Resources'', fst kv]) (concat (map ?g ?roles)) = ?g (fst kv, snd kv)"
  proof (rule filter_path_concat)
    show "distinct (map fst ?roles)" using assms by (rule distinct_get_resources)
    show "(fst kv, snd kv) \<in> set ?roles" using kv by simp
    show "\<forall>m\<in>set (?g x). path m = [''Resources'', fst x]" for x
      by (simp add: RuleMatch_def)
  qed
  then show "length (filter (\<lambda>m. path m = [''Resources'', fst kv]) ms)
             = (if role_flagged (snd kv) then 1 else 0)"
    unfolding ms by simp
qed

text \<open>
  Role \<open>Open\<close> has three qualifying statements and one violation; roles \<open>Bound\<close>
  and \<open>Reader\<close>, without a qualifying statement, have none.
\<close>

theorem put_events_flags_role_once_witness:
  "distinct (map fst (Resources put_events_template))
   \<and> list_all (\<lambda>kv. policies_shaped (snd kv))
        (get_resources put_events_template [''AWS::IAM::Role''])
   \<and> length (filter qualifies
               (concat (map statements_of (policies_of (snd (hd (Resources put_events_template)))))))
       = 3
   \<and> map (\<lambda>kv. role_flagged (snd kv)) (get_resources put_events_template [''AWS::IAM::Role''])
       = [True, False, False]
   \<and> IAMPutEventsConditions_match put_events_template
       = Inr [\<lparr>path = [''Resources'', ''Open''],
               message = ''IAM role Open does not have an events:source condition for the events:PutEvents action''\<rparr>]
   \<and> length (filter (\<lambda>m. path m = [''Resources'', ''Open''])
               [\<lparr>path = [''Resources'', ''Open''], message = put_events_message ''Open''\<rparr>]) = 1
   \<and> length (filter (\<lambda>m. path m = [''Resources'', ''Bound''])
               [\<lparr>path = [''Resources'', ''Open''], message = put_events_message ''Open''\<rparr>]) = 0
   \<and> length (filter (\<lambda>m. path m = [''Resources'', ''Reader''])
               [\<lparr>path = [''Resources'', ''Open''], message = put_events_message ''Open''\<rparr>]) = 0"
proof -
  have q1: "qualifies open_statement" by code_simp
  have q2: "\<not> qualifies bound_statement" by code_simp
  have q3: "\<not> qualifies reader_statement" by code_simp
  note q = q1 q2 q3
  have sh: "statement_shaped open_statement" "statement_shaped bound_statement"
      "statement_shaped reader_statement"
    by (simp_all add: statement_shaped_def open_statement_def bound_statement_def
        reader_statement_def)
  have d: "distinct (map fst (Resources put_events_template))"
    by (simp add: put_events_template_def)
  have s: "\<forall>kv\<in>set (get_resources put_events_template [''AWS::IAM::Role'']). policies_shaped (snd kv)"
    by (simp add: put_events_template_def get_resources_def has_type_def policies_shaped_def
        policy_shaped_def sh)
  have three: "length (filter qualifies
               (concat (map statements_of (policies_of (snd (hd (Resources put_events_template)))))))
       = 3"
    by (simp add: put_events_template_def policies_of_def role_policies_def statements_of_def
        policy_statements_def q)
  have flags: "map (\<lambda>kv. role_flagged (snd kv))
                 (get_resources put_events_template [''AWS::IAM::Role''])
               = [True, False, False]"
    by code_simp
  have flagged: "map (\<lambda>kv. RuleMatch [''Resources'', fst kv] (put_events_message (fst kv)))
                   (filter (\<lambda>kv. role_flagged (snd kv))
                      (get_resources put_events_template [''AWS::IAM::Role'']))
                 = [RuleMatch [''Resources'', ''Open''] (put_events_message ''Open'')]"
    by code_simp
  from put_events_flags_role_once [OF d] s obtain ms
    where ms: "IAMPutEventsConditions_match put_events_template = Inr ms"
    by blast
  with put_events_flags_role_once [OF d] flagged
  have "ms = [RuleMatch [''Resources'', ''Open''] (put_events_message ''Open'')]"
    by simp
  moreover have "IAMPutEventsConditions_match put_events_template
       = Inr [\<lparr>path = [''Resources'', ''Open''],
               message = ''IAM role Open does not have an events:source condition for the events:PutEvents action''\<rparr>]"
    by code_simp
  ultimately show ?thesis
    using ms d s three flags
    by (simp add: RuleMatch_def put_events_message_def list_all_iff)
qed


section \<open>E9004: violations of an events rule\<close>

















end
